theory Spec2Isabelle
  imports Main "HOL-Library.AList"
begin

section \<open>Entity store of the medical second-opinion marketplace\<close>

text \<open>
  The services of the repository (\<^verbatim>\<open>OrderService\<close>, \<^verbatim>\<open>PaymentService\<close>,
  \<^verbatim>\<open>ReviewService\<close>, \<^verbatim>\<open>DocumentService\<close>, \<^verbatim>\<open>ConsultationService\<close>) and the
  model hooks they trigger are embedded as functions on an explicit store.

  Conventions of the embedding:
  \<^item> An \<^verbatim>\<open>ObjectId\<close> is a natural number; a \<^verbatim>\<open>Date\<close> is an integer (milliseconds
    since the epoch); money amounts are integers (exact units, where JavaScript's number
    arithmetic is exact).
  \<^item> A collection is an association list from identifiers to documents;
    \<open>map_of\<close> is \<^verbatim>\<open>findById\<close>, \<open>AList.update\<close> writes a document back.
  \<^item> Every operation returns its result (\<open>Inl\<close> an error, \<open>Inr\<close> the value) together
    with the store it leaves behind, so that what a failing call leaves unmodified is
    visible in the result.
  \<^item> The environment of a call supplies what the code reads from outside: the clock
    (\<^verbatim>\<open>new Date()\<close>, read once per call), the generated token
    (\<^verbatim>\<open>Date.now()\<close> and \<^verbatim>\<open>Math.random()\<close> suffix) and the identifier of a newly
    inserted document.
  \<^item> Records hold the fields that the modelled operations read or that decide their
    control flow; a statement of the source that only writes a field left out
    (\<^verbatim>\<open>createdAt\<close>, \<^verbatim>\<open>updatedAt\<close>, notification message texts) is left out with it.
  \<^item> Names are the source's. A field carries the initial of its interface
    (\<open>o_status\<close>, \<open>p_status\<close>, \<open>c_status\<close>) and a status constant the name of its enum
    (\<open>Order_COMPLETED\<close>, \<open>Pay_COMPLETED\<close>, \<open>Cons_COMPLETED\<close>), because the source
    reuses these names across interfaces and enums.
  \<^item> Schema validators run before the \<^verbatim>\<open>pre('save')\<close> hooks; a failing validator
    is \<open>ValidationError\<close>, a violated unique index is \<open>DuplicateKey\<close>. The validators of
    orders, payments, reviews and documents depend on the document alone, so a stored
    document keeps passing them and a save checks the paths the operation assigns. The
    \<^verbatim>\<open>scheduledDate\<close> validator of a consultation reads the clock, so every save of a
    consultation checks the whole document again.
\<close>

type_synonym oid = nat
type_synonym date = int

record env =
  now :: date
  fresh :: string
  new_id :: oid

text \<open>
  Error kinds. The source throws \<^verbatim>\<open>Error(message)\<close>; the constructors group the
  messages by the kind they signal:
  \<^item> \<open>NotFound\<close>: \<^verbatim>\<open>'... not found'\<close>, \<^verbatim>\<open>'Document not found or inactive'\<close>;
  \<^item> \<open>InvalidReviewer\<close>: \<^verbatim>\<open>'Invalid or inactive reviewer'\<close>, \<^verbatim>\<open>'User is not a reviewer'\<close>;
  \<^item> \<open>InvalidParticipants\<close>: \<^verbatim>\<open>'Invalid participants'\<close>;
  \<^item> \<open>InvalidState\<close>: \<^verbatim>\<open>'Order cannot be assigned at this time'\<close>,
    \<^verbatim>\<open>'Cannot cancel a completed order'\<close>, \<^verbatim>\<open>'Only completed payments can be refunded'\<close>,
    \<^verbatim>\<open>'Payment is already marked as failed'\<close>, \<^verbatim>\<open>'Only failed payments can be retried'\<close>,
    \<^verbatim>\<open>'Can only cancel pending payments'\<close>, \<^verbatim>\<open>'Consultation cannot be started'\<close>,
    \<^verbatim>\<open>'Consultation is not in progress'\<close>, \<^verbatim>\<open>'Consultation cannot be cancelled'\<close>,
    \<^verbatim>\<open>'Only scheduled consultations can be rescheduled'\<close>;
  \<^item> \<open>AlreadyCompleted\<close>: \<^verbatim>\<open>'Payment is already completed'\<close>;
  \<^item> \<open>AlreadyComplete\<close>: \<^verbatim>\<open>'Review is already completed'\<close>;
  \<^item> \<open>InvalidAmount\<close>: \<^verbatim>\<open>'Refund amount cannot exceed original payment amount'\<close>,
    \<^verbatim>\<open>'Payment amount must be greater than 0'\<close>;
  \<^item> \<open>InvalidDate\<close>: \<^verbatim>\<open>'Scheduled date must be in the future'\<close> and its variants;
  \<^item> \<open>InvalidFile\<close>: \<^verbatim>\<open>'File size cannot exceed 50MB'\<close>;
  \<^item> \<open>Forbidden\<close>: \<^verbatim>\<open>'Unauthorized to download this document'\<close>;
  \<^item> \<open>FileMissing\<close>: \<^verbatim>\<open>'File not found on server'\<close>;
  \<^item> \<open>SlotTaken\<close>: HTTP 409 \<^verbatim>\<open>'Time slot not available'\<close>;
  \<^item> \<open>Unauthorized\<close>: HTTP 401;
  \<^item> \<open>TypeError\<close>: a property read on \<^verbatim>\<open>null\<close>.
\<close>

datatype error =
    NotFound | InvalidReviewer | InvalidParticipants | InvalidState
  | AlreadyCompleted | AlreadyComplete | InvalidAmount | InvalidDate | InvalidFile
  | Forbidden | FileMissing | SlotTaken | Unauthorized
  | ValidationError | DuplicateKey | TypeError

subsection \<open>Strings as the schema setters see them\<close>

text \<open>
  Strings are ASCII: \<open>trim\<close> strips the ASCII white space, the case conversions act on
  the ASCII letters, and \<open>length\<close> is the length the \<^verbatim>\<open>maxlength\<close> validator counts.
  A value is truthy as in JavaScript: a string when it is present and not empty, a number
  when it is present and not 0.
\<close>

definition is_space :: "char \<Rightarrow> bool" where
  "is_space c = (c \<in> set [CHR '' '', CHR 0x09, CHR 0x0A, CHR 0x0B, CHR 0x0C, CHR 0x0D])"

definition trim :: "string \<Rightarrow> string" where
  "trim s = rev (dropWhile is_space (rev (dropWhile is_space s)))"

definition truthy_str :: "string option \<Rightarrow> bool" where
  "truthy_str v = (case v of None \<Rightarrow> False | Some s \<Rightarrow> s \<noteq> [])"

definition truthy_num :: "int option \<Rightarrow> bool" where
  "truthy_num v = (case v of None \<Rightarrow> False | Some n \<Rightarrow> n \<noteq> 0)"

definition maxlength :: "nat \<Rightarrow> string option \<Rightarrow> bool" where
  "maxlength n v = (case v of None \<Rightarrow> True | Some s \<Rightarrow> length s \<le> n)"

subsection \<open>Users, orders, notifications\<close>

datatype UserRole = CUSTOMER | REVIEWER | ADMIN

record IUser =
  u_role :: UserRole
  u_isActive :: bool

definition isReviewer :: "IUser \<Rightarrow> bool" where
  "isReviewer u = (u_role u = REVIEWER)"

datatype OrderStatus =
    Order_PENDING_REVIEW | Order_ASSIGNED | Order_IN_PROGRESS | Order_UNDER_REVIEW
  | Order_COMPLETED | Order_CANCELLED | Order_REFUNDED

record IOrder =
  o_orderNumber :: string
  o_customerId :: oid
  o_reviewerId :: "oid option"
  o_status :: OrderStatus
  o_totalAmount :: int
  o_paidAmount :: int
  o_dueDate :: "date option"
  o_assignedAt :: "date option"
  o_completedAt :: "date option"

datatype NotificationType =
    ORDER_CREATED | ORDER_ASSIGNED | ORDER_UPDATED | REVIEW_COMPLETED
  | CONSULTATION_SCHEDULED | PAYMENT_RECEIVED | PAYMENT_FAILED | DOCUMENT_UPLOADED
  | REMINDER | SYSTEM | GENERAL

record INotification =
  n_userId :: oid
  n_orderId :: "oid option"
  n_title :: string
  n_type :: NotificationType

subsection \<open>Payments, reviews, documents, consultations\<close>

datatype PaymentStatus =
    Pay_PENDING | Pay_PROCESSING | Pay_COMPLETED | Pay_FAILED | Pay_REFUNDED | Pay_CANCELLED

datatype PaymentMethod = CREDIT_CARD | DEBIT_CARD | PAYPAL | STRIPE | BANK_TRANSFER | WALLET

record IPayment =
  p_orderId :: oid
  p_amount :: int
  p_currency :: string
  p_status :: PaymentStatus
  p_paymentMethod :: PaymentMethod
  p_transactionId :: "string option"
  p_cardLast4 :: "string option"
  p_cardBrand :: "string option"
  p_failureReason :: "string option"
  p_refundId :: "string option"
  p_refundAmount :: "int option"
  p_refundReason :: "string option"
  p_fee :: int
  p_netAmount :: "int option"
  p_processedAt :: "date option"
  p_refundedAt :: "date option"

record Ratings =
  clarity :: int
  accuracy :: int
  completeness :: int

record IReview =
  r_orderId :: oid
  r_reviewerId :: oid
  r_recommendations :: "string option"
  r_attachments :: "string list"
  r_ratings :: "Ratings option"
  r_isComplete :: bool

record IDocument =
  d_orderId :: oid
  d_fileSize :: int
  d_filePath :: string
  d_uploadedBy :: oid
  d_isActive :: bool
  d_downloadCount :: int

datatype ConsultationStatus =
    Cons_SCHEDULED | Cons_IN_PROGRESS | Cons_COMPLETED | Cons_CANCELLED | Cons_RESCHEDULED

record Reminders =
  sent24h :: bool
  sent1h :: bool
  sent15min :: bool

record RescheduleEntry =
  rh_previousDate :: date
  rh_reason :: string
  rh_rescheduledBy :: oid
  rh_rescheduledAt :: date

record IConsultation =
  c_orderId :: oid
  c_customerId :: oid
  c_reviewerId :: oid
  c_scheduledDate :: date
  c_actualStartTime :: "date option"
  c_actualEndTime :: "date option"
  c_duration :: int
  c_status :: ConsultationStatus
  c_meetingLink :: "string option"
  c_notes :: "string option"
  c_customerNotes :: "string option"
  c_reviewerNotes :: "string option"
  c_reminders :: Reminders
  c_rescheduleHistory :: "RescheduleEntry list"

record store =
  users :: "(oid \<times> IUser) list"
  orders :: "(oid \<times> IOrder) list"
  payments :: "(oid \<times> IPayment) list"
  reviews :: "(oid \<times> IReview) list"
  documents :: "(oid \<times> IDocument) list"
  consultations :: "(oid \<times> IConsultation) list"
  notifications :: "INotification list"

definition Notification_create :: "INotification \<Rightarrow> store \<Rightarrow> store" where
  "Notification_create n s = s\<lparr>notifications := notifications s @ [n]\<rparr>"

section \<open>Order lifecycle (\<^verbatim>\<open>models/Order.ts\<close>, \<^verbatim>\<open>OrderService\<close>)\<close>

text \<open>
  \<^verbatim>\<open>OrderSchema.pre('save')\<close>: generate the order number when it is missing, stamp
  \<^verbatim>\<open>assignedAt\<close> when a reviewer is present and the stamp is unset, stamp
  \<^verbatim>\<open>completedAt\<close> when the status is COMPLETED and the stamp is unset.
\<close>

definition Order_pre_save :: "env \<Rightarrow> IOrder \<Rightarrow> IOrder" where
  "Order_pre_save e this =
     (let o1 = (if o_orderNumber this = [] then this\<lparr>o_orderNumber := ''ORD-'' @ fresh e\<rparr> else this);
          o2 = (if o_reviewerId o1 \<noteq> None \<and> o_assignedAt o1 = None
                then o1\<lparr>o_assignedAt := Some (now e)\<rparr> else o1);
          o3 = (if o_status o2 = Order_COMPLETED \<and> o_completedAt o2 = None
                then o2\<lparr>o_completedAt := Some (now e)\<rparr> else o2)
      in o3)"

text \<open>
  \<^verbatim>\<open>order.save()\<close> of a stored order. The services below assign only \<^verbatim>\<open>reviewerId\<close>,
  \<^verbatim>\<open>status\<close> (a member of the enum by its type), the two time stamps and a
  \<^verbatim>\<open>paidAmount\<close> that is at least 0, so no validator of the schema can fail.
\<close>

definition Order_save :: "env \<Rightarrow> oid \<Rightarrow> IOrder \<Rightarrow> store \<Rightarrow> IOrder \<times> store" where
  "Order_save e orderId this s =
     (let saved = Order_pre_save e this
      in (saved, s\<lparr>orders := AList.update orderId saved (orders s)\<rparr>))"

definition canBeAssigned :: "IOrder \<Rightarrow> bool" where
  "canBeAssigned this = (o_status this = Order_PENDING_REVIEW)"

text \<open>\<^verbatim>\<open>OrderService.assignReviewer\<close>: the reviewer is looked up first, then the order.\<close>

definition assignReviewer :: "env \<Rightarrow> oid \<Rightarrow> oid \<Rightarrow> store \<Rightarrow> (error + IOrder) \<times> store" where
  "assignReviewer e orderId reviewerId s =
     (case map_of (users s) reviewerId of
        None \<Rightarrow> (Inl InvalidReviewer, s)
      | Some reviewer \<Rightarrow>
          if \<not> u_isActive reviewer then (Inl InvalidReviewer, s)
          else if \<not> isReviewer reviewer then (Inl InvalidReviewer, s)
          else (case map_of (orders s) orderId of
                  None \<Rightarrow> (Inl NotFound, s)
                | Some order \<Rightarrow>
                    if \<not> canBeAssigned order then (Inl InvalidState, s)
                    else
                      (let order' = order\<lparr>o_reviewerId := Some reviewerId,
                                          o_status := Order_ASSIGNED,
                                          o_assignedAt := Some (now e)\<rparr>;
                           (updatedOrder, s1) = Order_save e orderId order' s;
                           s2 = Notification_create
                                  \<lparr>n_userId = o_customerId order, n_orderId = Some orderId,
                                   n_title = ''Order Assigned'', n_type = ORDER_ASSIGNED\<rparr> s1;
                           s3 = Notification_create
                                  \<lparr>n_userId = reviewerId, n_orderId = Some orderId,
                                   n_title = ''New Order Assignment'', n_type = ORDER_ASSIGNED\<rparr> s2
                       in (Inr updatedOrder, s3))))"

text \<open>
  \<^verbatim>\<open>OrderService.updateOrderStatus\<close>: the status is set without a transition table;
  for COMPLETED the completion date is assigned before the save.
\<close>

definition updateOrderStatus ::
  "env \<Rightarrow> oid \<Rightarrow> OrderStatus \<Rightarrow> store \<Rightarrow> (error + IOrder) \<times> store" where
  "updateOrderStatus e orderId status s =
     (case map_of (orders s) orderId of
        None \<Rightarrow> (Inl NotFound, s)
      | Some order \<Rightarrow>
          (let oldStatus = o_status order;
               order1 = order\<lparr>o_status := status\<rparr>;
               order2 = (if status = Order_COMPLETED
                         then order1\<lparr>o_completedAt := Some (now e)\<rparr> else order1);
               (updatedOrder, s1) = Order_save e orderId order2 s;
               s2 = (if oldStatus \<noteq> status
                     then Notification_create
                            \<lparr>n_userId = o_customerId order, n_orderId = Some orderId,
                             n_title = ''Order Status Updated'', n_type = ORDER_UPDATED\<rparr> s1
                     else s1)
           in (Inr updatedOrder, s2)))"

text \<open>\<^verbatim>\<open>OrderService.cancelOrder\<close>.\<close>

definition cancelOrder :: "env \<Rightarrow> oid \<Rightarrow> store \<Rightarrow> (error + IOrder) \<times> store" where
  "cancelOrder e orderId s =
     (case map_of (orders s) orderId of
        None \<Rightarrow> (Inl NotFound, s)
      | Some order \<Rightarrow>
          if o_status order = Order_COMPLETED then (Inl InvalidState, s)
          else
            (let (updatedOrder, s1) = Order_save e orderId (order\<lparr>o_status := Order_CANCELLED\<rparr>) s;
                 s2 = Notification_create
                        \<lparr>n_userId = o_customerId order, n_orderId = Some orderId,
                         n_title = ''Order Cancelled'', n_type = ORDER_UPDATED\<rparr> s1
             in (Inr updatedOrder, s2)))"

section \<open>Payment ledger (\<^verbatim>\<open>models/Payment.ts\<close>, \<^verbatim>\<open>PaymentService\<close>)\<close>

subsection \<open>Schema setters and validators\<close>

definition to_lower :: "char \<Rightarrow> char" where
  "to_lower c = (let n = (of_char c :: nat) in if 65 \<le> n \<and> n \<le> 90 then char_of (n + 32) else c)"

definition to_upper :: "char \<Rightarrow> char" where
  "to_upper c = (let n = (of_char c :: nat) in if 97 \<le> n \<and> n \<le> 122 then char_of (n - 32) else c)"

definition is_digit :: "char \<Rightarrow> bool" where
  "is_digit c = (c \<in> set ''0123456789'')"

text \<open>\<^verbatim>\<open>match: /^\d{4}$/\<close>; the match validator lets the empty string pass.\<close>

definition valid_cardLast4 :: "string \<Rightarrow> bool" where
  "valid_cardLast4 v = (v = [] \<or> (length v = 4 \<and> list_all is_digit v))"

definition valid_cardBrand :: "string \<Rightarrow> bool" where
  "valid_cardBrand v =
     (v \<in> set [''visa'', ''mastercard'', ''amex'', ''discover'', ''diners'', ''jcb'', ''unionpay''])"

definition valid_currency :: "string \<Rightarrow> bool" where
  "valid_currency v = (v \<in> set [''USD'', ''EUR'', ''GBP'', ''CAD'', ''AUD'', ''JPY'', ''INR''])"

definition assigned_ok :: "('a \<Rightarrow> bool) \<Rightarrow> 'a option \<Rightarrow> bool" where
  "assigned_ok valid v = (case v of None \<Rightarrow> True | Some x \<Rightarrow> valid x)"

subsection \<open>Hooks and \<^verbatim>\<open>save\<close>\<close>

text \<open>
  \<^verbatim>\<open>PaymentSchema.pre('save')\<close>. The net amount is computed only while it is unset (or 0);
  \<^verbatim>\<open>processedAt\<close>, \<^verbatim>\<open>refundedAt\<close> and the transaction id are filled when missing.
\<close>

definition Payment_pre_save :: "env \<Rightarrow> IPayment \<Rightarrow> IPayment" where
  "Payment_pre_save e this =
     (let p1 = (if p_fee this \<noteq> 0 \<and> \<not> truthy_num (p_netAmount this)
                then this\<lparr>p_netAmount := Some (p_amount this - p_fee this)\<rparr>
                else if \<not> truthy_num (p_netAmount this)
                then this\<lparr>p_netAmount := Some (p_amount this)\<rparr>
                else this);
          p2 = (if p_status p1 = Pay_COMPLETED \<and> p_processedAt p1 = None
                then p1\<lparr>p_processedAt := Some (now e)\<rparr> else p1);
          p3 = (if p_status p2 = Pay_REFUNDED \<and> p_refundedAt p2 = None
                then p2\<lparr>p_refundedAt := Some (now e)\<rparr> else p2);
          p4 = (if \<not> truthy_str (p_transactionId p3) \<and> p_status p3 \<noteq> Pay_PENDING
                then p3\<lparr>p_transactionId := Some (''txn_'' @ fresh e)\<rparr> else p3)
      in p4)"

text \<open>
  \<^verbatim>\<open>Order.findByIdAndUpdate(id, { $inc: { paidAmount: amount } })\<close>: an atomic field
  increment that runs no hook and no validator; nothing happens when the order is absent.
\<close>

definition Order_inc_paidAmount :: "oid \<Rightarrow> int \<Rightarrow> store \<Rightarrow> store" where
  "Order_inc_paidAmount orderId amount s =
     (case map_of (orders s) orderId of
        None \<Rightarrow> s
      | Some order \<Rightarrow>
          s\<lparr>orders := AList.update orderId
                         (order\<lparr>o_paidAmount := o_paidAmount order + amount\<rparr>) (orders s)\<rparr>)"

text \<open>
  The notification of the post-save hook goes to \<^verbatim>\<open>order.customerId\<close> after
  \<^verbatim>\<open>populate('customerId')\<close>: when the customer does not resolve, the populated field is
  null and \<^verbatim>\<open>Notification.create\<close> rejects the required \<^verbatim>\<open>userId\<close>.
\<close>

definition notify_populated_customer ::
  "oid \<Rightarrow> string \<Rightarrow> NotificationType \<Rightarrow> store \<Rightarrow> error option \<times> store" where
  "notify_populated_customer orderId title type s =
     (case map_of (orders s) orderId of
        None \<Rightarrow> (None, s)
      | Some order \<Rightarrow>
          (case map_of (users s) (o_customerId order) of
             None \<Rightarrow> (Some ValidationError, s)
           | Some customer \<Rightarrow>
               (None, Notification_create
                        \<lparr>n_userId = o_customerId order, n_orderId = Some orderId,
                         n_title = title, n_type = type\<rparr> s)))"

text \<open>\<^verbatim>\<open>PaymentSchema.post('save')\<close>.\<close>

definition Payment_post_save :: "IPayment \<Rightarrow> store \<Rightarrow> error option \<times> store" where
  "Payment_post_save doc s =
     (let (err1, s1) =
            (if p_status doc = Pay_COMPLETED
             then notify_populated_customer (p_orderId doc) ''Payment Received'' PAYMENT_RECEIVED
                    (Order_inc_paidAmount (p_orderId doc) (p_amount doc) s)
             else (None, s))
      in if err1 \<noteq> None then (err1, s1)
         else if p_status doc = Pay_FAILED
         then notify_populated_customer (p_orderId doc) ''Payment Failed'' PAYMENT_FAILED s1
         else (None, s1))"

text \<open>The unique sparse index on \<^verbatim>\<open>transactionId\<close>.\<close>

definition txn_conflict :: "oid \<Rightarrow> IPayment \<Rightarrow> (oid \<times> IPayment) list \<Rightarrow> bool" where
  "txn_conflict pid this ps =
     (case p_transactionId this of
        None \<Rightarrow> False
      | Some t \<Rightarrow> list_ex (\<lambda>(j, q). j \<noteq> pid \<and> p_transactionId q = Some t) ps)"

text \<open>
  \<^verbatim>\<open>payment.save()\<close>: validation of the assigned paths (decided by the caller, which knows
  what it assigned), the pre-save hook, the write under the unique index, the post-save
  hook. An error of the post-save hook surfaces after the write.
\<close>

definition Payment_save ::
  "env \<Rightarrow> oid \<Rightarrow> bool \<Rightarrow> IPayment \<Rightarrow> store \<Rightarrow> (error + IPayment) \<times> store" where
  "Payment_save e pid valid this s =
     (if \<not> valid then (Inl ValidationError, s)
      else
        (let saved = Payment_pre_save e this
         in if txn_conflict pid saved (payments s) then (Inl DuplicateKey, s)
            else
              (case Payment_post_save saved (s\<lparr>payments := AList.update pid saved (payments s)\<rparr>) of
                 (None, s2) \<Rightarrow> (Inr saved, s2)
               | (Some err, s2) \<Rightarrow> (Inl err, s2))))"

subsection \<open>Service operations\<close>

record CreatePaymentData =
  cp_orderId :: oid
  cp_amount :: int
  cp_currency :: "string option"
  cp_paymentMethod :: PaymentMethod

text \<open>
  \<^verbatim>\<open>PaymentService.createPayment\<close>; a new payment takes the schema defaults. The
  validators of the new document run first, then the insert, which the store refuses when
  the identifier is taken.
\<close>

definition createPayment :: "env \<Rightarrow> CreatePaymentData \<Rightarrow> store \<Rightarrow> (error + IPayment) \<times> store" where
  "createPayment e paymentData s =
     (case map_of (orders s) (cp_orderId paymentData) of
        None \<Rightarrow> (Inl NotFound, s)
      | Some order \<Rightarrow>
          if cp_amount paymentData \<le> 0 then (Inl InvalidAmount, s)
          else
            (let currency = map to_upper
                   (if truthy_str (cp_currency paymentData)
                    then (case cp_currency paymentData of Some c \<Rightarrow> c | None \<Rightarrow> ''USD'')
                    else ''USD'');
                 payment = \<lparr>p_orderId = cp_orderId paymentData, p_amount = cp_amount paymentData,
                            p_currency = currency, p_status = Pay_PENDING,
                            p_paymentMethod = cp_paymentMethod paymentData,
                            p_transactionId = None, p_cardLast4 = None, p_cardBrand = None,
                            p_failureReason = None, p_refundId = None, p_refundAmount = None,
                            p_refundReason = None, p_fee = 0, p_netAmount = None,
                            p_processedAt = None, p_refundedAt = None\<rparr>
             in if \<not> (0 < p_amount payment \<and> valid_currency currency)
                then (Inl ValidationError, s)
                else if map_of (payments s) (new_id e) \<noteq> None then (Inl DuplicateKey, s)
                else Payment_save e (new_id e) True payment s))"

text \<open>
  The data of a completion. \<^verbatim>\<open>stripePaymentId\<close> and \<^verbatim>\<open>paypalPaymentId\<close> are plain
  strings without validators; they are left out.
\<close>

record CompletePaymentData =
  cd_transactionId :: "string option"
  cd_cardLast4 :: "string option"
  cd_cardBrand :: "string option"
  cd_fee :: "int option"

text \<open>\<^verbatim>\<open>Object.assign(payment, data)\<close> through the schema setters (trim, lowercase).\<close>

definition assign_CompletePaymentData :: "IPayment \<Rightarrow> CompletePaymentData \<Rightarrow> IPayment" where
  "assign_CompletePaymentData payment data =
     (let p1 = (case cd_transactionId data of None \<Rightarrow> payment
                | Some t \<Rightarrow> payment\<lparr>p_transactionId := Some (trim t)\<rparr>);
          p2 = (case cd_cardLast4 data of None \<Rightarrow> p1
                | Some c \<Rightarrow> p1\<lparr>p_cardLast4 := Some (trim c)\<rparr>);
          p3 = (case cd_cardBrand data of None \<Rightarrow> p2
                | Some b \<Rightarrow> p2\<lparr>p_cardBrand := Some (map to_lower (trim b))\<rparr>);
          p4 = (case cd_fee data of None \<Rightarrow> p3 | Some f \<Rightarrow> p3\<lparr>p_fee := f\<rparr>)
      in p4)"

text \<open>\<^verbatim>\<open>PaymentSchema.methods.complete\<close>, up to its \<^verbatim>\<open>save\<close>.\<close>

definition Payment_complete :: "env \<Rightarrow> string option \<Rightarrow> IPayment \<Rightarrow> IPayment" where
  "Payment_complete e transactionId this =
     (let p1 = this\<lparr>p_status := Pay_COMPLETED, p_processedAt := Some (now e)\<rparr>
      in if truthy_str transactionId
         then p1\<lparr>p_transactionId := map_option trim transactionId\<rparr> else p1)"

text \<open>\<^verbatim>\<open>PaymentService.completePayment\<close>.\<close>

definition completePayment ::
  "env \<Rightarrow> oid \<Rightarrow> CompletePaymentData \<Rightarrow> store \<Rightarrow> (error + IPayment) \<times> store" where
  "completePayment e pid data s =
     (case map_of (payments s) pid of
        None \<Rightarrow> (Inl NotFound, s)
      | Some payment \<Rightarrow>
          if p_status payment = Pay_COMPLETED then (Inl AlreadyCompleted, s)
          else
            (let p1 = assign_CompletePaymentData payment data;
                 p2 = Payment_complete e (cd_transactionId data) p1
             in Payment_save e pid
                  (assigned_ok valid_cardLast4 (map_option trim (cd_cardLast4 data))
                   \<and> assigned_ok valid_cardBrand
                        (map_option (\<lambda>b. map to_lower (trim b)) (cd_cardBrand data))
                   \<and> assigned_ok (\<lambda>f. 0 \<le> f) (cd_fee data))
                  p2 s))"

text \<open>\<^verbatim>\<open>PaymentService.failPayment\<close> with \<^verbatim>\<open>PaymentSchema.methods.fail\<close>.\<close>

definition failPayment ::
  "env \<Rightarrow> oid \<Rightarrow> string option \<Rightarrow> store \<Rightarrow> (error + IPayment) \<times> store" where
  "failPayment e pid reason s =
     (case map_of (payments s) pid of
        None \<Rightarrow> (Inl NotFound, s)
      | Some payment \<Rightarrow>
          if p_status payment = Pay_FAILED then (Inl InvalidState, s)
          else
            (let p1 = payment\<lparr>p_status := Pay_FAILED\<rparr>;
                 p2 = (if truthy_str reason
                       then p1\<lparr>p_failureReason := map_option trim reason\<rparr> else p1)
             in Payment_save e pid
                  (if truthy_str reason then maxlength 500 (map_option trim reason) else True)
                  p2 s))"

record RefundData =
  rd_amount :: "int option"
  rd_reason :: "string option"
  rd_refundId :: "string option"

text \<open>\<^verbatim>\<open>PaymentSchema.methods.refund\<close>, up to its \<^verbatim>\<open>save\<close>.\<close>

definition Payment_refund ::
  "env \<Rightarrow> int \<Rightarrow> string option \<Rightarrow> string option \<Rightarrow> IPayment \<Rightarrow> IPayment" where
  "Payment_refund e amount reason refundId this =
     this\<lparr>p_status := Pay_REFUNDED,
          p_refundAmount := Some (if amount \<noteq> 0 then amount else p_amount this),
          p_refundReason := map_option trim reason,
          p_refundId := map_option trim refundId,
          p_refundedAt := Some (now e)\<rparr>"

text \<open>\<^verbatim>\<open>refundData.amount || payment.amount\<close>: an absent or zero amount refunds in full.\<close>

definition refundAmount_of :: "RefundData \<Rightarrow> IPayment \<Rightarrow> int" where
  "refundAmount_of refundData payment =
     (case rd_amount refundData of
        None \<Rightarrow> p_amount payment
      | Some a \<Rightarrow> if a \<noteq> 0 then a else p_amount payment)"

text \<open>
  \<^verbatim>\<open>PaymentService.refundPayment\<close>. The guard on REFUNDED after the guard on COMPLETED
  can never fire and is kept as the source has it.
\<close>

definition refundPayment ::
  "env \<Rightarrow> oid \<Rightarrow> RefundData \<Rightarrow> store \<Rightarrow> (error + IPayment) \<times> store" where
  "refundPayment e pid refundData s =
     (case map_of (payments s) pid of
        None \<Rightarrow> (Inl NotFound, s)
      | Some payment \<Rightarrow>
          if p_status payment \<noteq> Pay_COMPLETED then (Inl InvalidState, s)
          else if p_status payment = Pay_REFUNDED then (Inl InvalidState, s)
          else
            (let refundAmount = refundAmount_of refundData payment
             in if refundAmount > p_amount payment then (Inl InvalidAmount, s)
                else
                  (let this = Payment_refund e refundAmount (rd_reason refundData)
                                (rd_refundId refundData) payment
                   in case Payment_save e pid
                             (assigned_ok (\<lambda>r. 0 \<le> r) (p_refundAmount this)
                              \<and> maxlength 500 (p_refundReason this))
                             this s of
                        (Inl err, s1) \<Rightarrow> (Inl err, s1)
                      | (Inr saved, s1) \<Rightarrow>
                          (case map_of (orders s1) (p_orderId saved) of
                             None \<Rightarrow> (Inr saved, s1)
                           | Some order \<Rightarrow>
                               (let (savedOrder, s2) =
                                      Order_save e (p_orderId saved)
                                        (order\<lparr>o_paidAmount :=
                                                 max 0 (o_paidAmount order - refundAmount)\<rparr>) s1;
                                    s3 = Notification_create
                                           \<lparr>n_userId = o_customerId order,
                                            n_orderId = Some (p_orderId saved),
                                            n_title = ''Payment Refunded'',
                                            n_type = PAYMENT_RECEIVED\<rparr> s2
                                in (Inr saved, s3))))))"

text \<open>\<^verbatim>\<open>PaymentService.cancelPayment\<close> with \<^verbatim>\<open>PaymentSchema.methods.cancel\<close>.\<close>

definition cancelPayment :: "env \<Rightarrow> oid \<Rightarrow> store \<Rightarrow> (error + IPayment) \<times> store" where
  "cancelPayment e pid s =
     (case map_of (payments s) pid of
        None \<Rightarrow> (Inl NotFound, s)
      | Some payment \<Rightarrow>
          if p_status payment = Pay_PENDING
          then Payment_save e pid True (payment\<lparr>p_status := Pay_CANCELLED\<rparr>) s
          else (Inl InvalidState, s))"

text \<open>\<^verbatim>\<open>PaymentService.retryFailedPayment\<close>.\<close>

definition retryFailedPayment :: "env \<Rightarrow> oid \<Rightarrow> store \<Rightarrow> (error + IPayment) \<times> store" where
  "retryFailedPayment e pid s =
     (case map_of (payments s) pid of
        None \<Rightarrow> (Inl NotFound, s)
      | Some payment \<Rightarrow>
          if p_status payment \<noteq> Pay_FAILED then (Inl InvalidState, s)
          else Payment_save e pid True
                 (payment\<lparr>p_status := Pay_PENDING, p_failureReason := None\<rparr>) s)"

section \<open>Review workflow (\<^verbatim>\<open>models/Review.ts\<close>, \<^verbatim>\<open>ReviewService\<close>)\<close>

record CompleteReviewData =
  cr_recommendations :: "string option"
  cr_attachments :: "string list option"
  cr_ratings :: "Ratings option"

definition valid_rating :: "int \<Rightarrow> bool" where
  "valid_rating n = (1 \<le> n \<and> n \<le> 5)"

definition valid_Ratings :: "Ratings \<Rightarrow> bool" where
  "valid_Ratings r = (valid_rating (clarity r) \<and> valid_rating (accuracy r)
                      \<and> valid_rating (completeness r))"

text \<open>
  \<^verbatim>\<open>ReviewSchema.post('save')\<close>: every save of a complete review sets the parent order to
  COMPLETED and its completion date to the current time, through
  \<^verbatim>\<open>findByIdAndUpdate\<close> (no hook, no validator; nothing happens when the order is absent).
\<close>

definition Review_post_save :: "env \<Rightarrow> IReview \<Rightarrow> store \<Rightarrow> store" where
  "Review_post_save e doc s =
     (if r_isComplete doc
      then (case map_of (orders s) (r_orderId doc) of
              None \<Rightarrow> s
            | Some order \<Rightarrow>
                s\<lparr>orders := AList.update (r_orderId doc)
                               (order\<lparr>o_status := Order_COMPLETED,
                                      o_completedAt := Some (now e)\<rparr>) (orders s)\<rparr>)
      else s)"

text \<open>
  \<^verbatim>\<open>review.save()\<close>. The pre-save hook writes only \<^verbatim>\<open>ratings.overall\<close> and \<^verbatim>\<open>tags\<close>,
  which the record leaves out.
\<close>

definition Review_save ::
  "env \<Rightarrow> oid \<Rightarrow> bool \<Rightarrow> IReview \<Rightarrow> store \<Rightarrow> (error + IReview) \<times> store" where
  "Review_save e rid valid this s =
     (if \<not> valid then (Inl ValidationError, s)
      else (Inr this, Review_post_save e this (s\<lparr>reviews := AList.update rid this (reviews s)\<rparr>)))"

definition assign_CompleteReviewData :: "IReview \<Rightarrow> CompleteReviewData \<Rightarrow> IReview" where
  "assign_CompleteReviewData review d =
     (let r1 = (case cr_recommendations d of None \<Rightarrow> review
                | Some t \<Rightarrow> review\<lparr>r_recommendations := Some (trim t)\<rparr>);
          r2 = (case cr_attachments d of None \<Rightarrow> r1
                | Some a \<Rightarrow> r1\<lparr>r_attachments := map trim a\<rparr>);
          r3 = (case cr_ratings d of None \<Rightarrow> r2 | Some g \<Rightarrow> r2\<lparr>r_ratings := Some g\<rparr>)
      in r3)"

text \<open>\<^verbatim>\<open>ReviewService.completeReview\<close>.\<close>

definition completeReview ::
  "env \<Rightarrow> oid \<Rightarrow> CompleteReviewData option \<Rightarrow> store \<Rightarrow> (error + IReview) \<times> store" where
  "completeReview e rid additionalData s =
     (case map_of (reviews s) rid of
        None \<Rightarrow> (Inl NotFound, s)
      | Some review \<Rightarrow>
          if r_isComplete review then (Inl AlreadyComplete, s)
          else
            (let r1 = (case additionalData of None \<Rightarrow> review
                       | Some d \<Rightarrow> assign_CompleteReviewData review d);
                 r2 = r1\<lparr>r_isComplete := True\<rparr>
             in Review_save e rid
                  (case additionalData of
                     None \<Rightarrow> True
                   | Some d \<Rightarrow> maxlength 5000 (map_option trim (cr_recommendations d))
                               \<and> assigned_ok valid_Ratings (cr_ratings d))
                  r2 s))"

section \<open>Document registry (\<^verbatim>\<open>models/Document.ts\<close>, \<^verbatim>\<open>DocumentService\<close>)\<close>

text \<open>
  \<^verbatim>\<open>document.save()\<close> after the download counter was assigned: the \<^verbatim>\<open>min: 0\<close> validator
  of the counter, then the pre-save hook with its size limit of 50 MiB.
\<close>

definition Document_save :: "oid \<Rightarrow> IDocument \<Rightarrow> store \<Rightarrow> (error + IDocument) \<times> store" where
  "Document_save did this s =
     (if \<not> 0 \<le> d_downloadCount this then (Inl ValidationError, s)
      else if d_fileSize this > 50 * 1024 * 1024 then (Inl InvalidFile, s)
      else (Inr this, s\<lparr>documents := AList.update did this (documents s)\<rparr>))"

definition incrementDownloadCount ::
  "oid \<Rightarrow> IDocument \<Rightarrow> store \<Rightarrow> (error + IDocument) \<times> store" where
  "incrementDownloadCount did this s =
     Document_save did (this\<lparr>d_downloadCount := d_downloadCount this + 1\<rparr>) s"

text \<open>
  \<^verbatim>\<open>DocumentService.downloadDocument\<close>. \<open>fs_access\<close> is the file system's answer to
  \<^verbatim>\<open>fs.access(path)\<close>. The document is read with its order populated; an order that
  does not resolve populates as \<^verbatim>\<open>null\<close> and the read of \<^verbatim>\<open>order.customerId\<close> throws.
  The permission test is the source's
  \<^verbatim>\<open>customerId !== userId && (reviewerId && reviewerId !== userId)\<close>.
\<close>

definition downloadDocument ::
  "(string \<Rightarrow> bool) \<Rightarrow> oid \<Rightarrow> oid \<Rightarrow> store \<Rightarrow> (error + IDocument \<times> string) \<times> store" where
  "downloadDocument fs_access did userId s =
     (case map_of (documents s) did of
        None \<Rightarrow> (Inl NotFound, s)
      | Some document \<Rightarrow>
          if \<not> d_isActive document then (Inl NotFound, s)
          else
            (case map_of (orders s) (d_orderId document) of
               None \<Rightarrow> (Inl TypeError, s)
             | Some order \<Rightarrow>
                 if o_customerId order \<noteq> userId
                    \<and> (case o_reviewerId order of None \<Rightarrow> False | Some r \<Rightarrow> r \<noteq> userId)
                 then (Inl Forbidden, s)
                 else if \<not> fs_access (d_filePath document) then (Inl FileMissing, s)
                 else
                   (case incrementDownloadCount did document s of
                      (Inl err, s1) \<Rightarrow> (Inl err, s1)
                    | (Inr saved, s1) \<Rightarrow> (Inr (saved, d_filePath saved), s1))))"

section \<open>Consultation scheduler (\<^verbatim>\<open>models/Consultation.ts\<close>, \<^verbatim>\<open>ConsultationService\<close>, booking routes)\<close>

subsection \<open>Hooks and \<^verbatim>\<open>save\<close>\<close>

text \<open>\<^verbatim>\<open>ConsultationSchema.pre('save')\<close>.\<close>

definition Consultation_pre_save :: "env \<Rightarrow> bool \<Rightarrow> IConsultation \<Rightarrow> error + IConsultation" where
  "Consultation_pre_save e isNew this =
     (if isNew \<and> c_scheduledDate this \<le> now e then Inl InvalidDate
      else
        (let c1 = (if c_status this = Cons_IN_PROGRESS \<and> c_actualStartTime this = None
                   then this\<lparr>c_actualStartTime := Some (now e)\<rparr> else this);
             c2 = (if c_status c1 = Cons_COMPLETED \<and> c_actualEndTime c1 = None
                   then c1\<lparr>c_actualEndTime := Some (now e)\<rparr> else c1)
         in Inr c2))"

definition notify_participants :: "IConsultation \<Rightarrow> string \<Rightarrow> store \<Rightarrow> store" where
  "notify_participants doc title s =
     Notification_create
       \<lparr>n_userId = c_reviewerId doc, n_orderId = Some (c_orderId doc),
        n_title = title, n_type = CONSULTATION_SCHEDULED\<rparr>
       (Notification_create
          \<lparr>n_userId = c_customerId doc, n_orderId = Some (c_orderId doc),
           n_title = title, n_type = CONSULTATION_SCHEDULED\<rparr> s)"

text \<open>\<^verbatim>\<open>ConsultationSchema.post('save')\<close>, with the value \<^verbatim>\<open>doc.isNew\<close> has when it runs.\<close>

definition Consultation_post_save :: "bool \<Rightarrow> IConsultation \<Rightarrow> store \<Rightarrow> store" where
  "Consultation_post_save isNew doc s =
     (if isNew \<and> c_status doc = Cons_SCHEDULED
      then notify_participants doc ''Consultation Scheduled'' s else s)"

text \<open>
  The validators of \<^verbatim>\<open>ConsultationSchema\<close> on the modelled paths:
  \<^verbatim>\<open>scheduledDate\<close> must be later than the clock (\<^verbatim>\<open>date > new Date()\<close>),
  \<^verbatim>\<open>duration\<close> lies between 15 and 180, the three notes respect their
  \<^verbatim>\<open>maxlength\<close>, and every entry of \<^verbatim>\<open>rescheduleHistory\<close> has a reason that is
  present and at most 500 characters long.
\<close>

definition Consultation_validate :: "env \<Rightarrow> IConsultation \<Rightarrow> bool" where
  "Consultation_validate e this =
     (c_scheduledDate this > now e
      \<and> 15 \<le> c_duration this \<and> c_duration this \<le> 180
      \<and> maxlength 5000 (c_notes this)
      \<and> maxlength 2000 (c_customerNotes this)
      \<and> maxlength 2000 (c_reviewerNotes this)
      \<and> list_all (\<lambda>entry. rh_reason entry \<noteq> [] \<and> length (rh_reason entry) \<le> 500)
            (c_rescheduleHistory this))"

text \<open>
  \<^verbatim>\<open>consultation.save()\<close>: validation of the document, pre-save hook, write, post-save
  hook. The validation runs on every save, also of a document that was loaded from the
  store, so a consultation whose \<^verbatim>\<open>scheduledDate\<close> has been reached cannot be saved
  any more. An insert is refused when the identifier is taken. The mapper clears
  \<^verbatim>\<open>isNew\<close> when it issues the insert, so the post-save hook always reads it as false.
\<close>

definition Consultation_save ::
  "env \<Rightarrow> oid \<Rightarrow> bool \<Rightarrow> IConsultation \<Rightarrow> store \<Rightarrow> (error + IConsultation) \<times> store" where
  "Consultation_save e cid isNew this s =
     (if \<not> Consultation_validate e this then (Inl ValidationError, s)
      else
        (case Consultation_pre_save e isNew this of
           Inl err \<Rightarrow> (Inl err, s)
         | Inr saved \<Rightarrow>
             if isNew \<and> map_of (consultations s) cid \<noteq> None then (Inl DuplicateKey, s)
             else
               (Inr saved,
                Consultation_post_save False saved
                  (s\<lparr>consultations := AList.update cid saved (consultations s)\<rparr>))))"

subsection \<open>Scheduling\<close>

record ScheduleData =
  sd_orderId :: oid
  sd_customerId :: oid
  sd_reviewerId :: oid
  sd_scheduledDate :: date
  sd_duration :: "int option"
  sd_meetingLink :: "string option"

definition new_Consultation ::
  "oid \<Rightarrow> oid \<Rightarrow> oid \<Rightarrow> date \<Rightarrow> int \<Rightarrow> string option \<Rightarrow> string option \<Rightarrow> IConsultation" where
  "new_Consultation orderId customerId reviewerId scheduledDate duration meetingLink customerNotes =
     \<lparr>c_orderId = orderId, c_customerId = customerId, c_reviewerId = reviewerId,
      c_scheduledDate = scheduledDate, c_actualStartTime = None, c_actualEndTime = None,
      c_duration = duration, c_status = Cons_SCHEDULED, c_meetingLink = meetingLink,
      c_notes = None, c_customerNotes = customerNotes, c_reviewerNotes = None,
      c_reminders = \<lparr>sent24h = False, sent1h = False, sent15min = False\<rparr>,
      c_rescheduleHistory = []\<rparr>"

text \<open>
  \<^verbatim>\<open>ConsultationService.scheduleConsultation\<close>: order, participants, reviewer role and
  a future date are checked; the existing consultations of the reviewer are not read.
\<close>

definition scheduleConsultation ::
  "env \<Rightarrow> ScheduleData \<Rightarrow> store \<Rightarrow> (error + IConsultation) \<times> store" where
  "scheduleConsultation e consultationData s =
     (case map_of (orders s) (sd_orderId consultationData) of
        None \<Rightarrow> (Inl NotFound, s)
      | Some order \<Rightarrow>
          (case (map_of (users s) (sd_customerId consultationData),
                 map_of (users s) (sd_reviewerId consultationData)) of
             (Some customer, Some reviewer) \<Rightarrow>
               if \<not> isReviewer reviewer then (Inl InvalidReviewer, s)
               else if sd_scheduledDate consultationData \<le> now e then (Inl InvalidDate, s)
               else
                 (let meetingLink =
                        (if truthy_str (sd_meetingLink consultationData)
                         then map_option trim (sd_meetingLink consultationData)
                         else Some (''https://meet.medicalreview.com/consult_'' @ fresh e));
                      duration = (case sd_duration consultationData of None \<Rightarrow> 60 | Some d \<Rightarrow> d);
                      consultation =
                        new_Consultation (sd_orderId consultationData)
                          (sd_customerId consultationData) (sd_reviewerId consultationData)
                          (sd_scheduledDate consultationData) duration meetingLink None
                  in Consultation_save e (new_id e) True consultation s)
           | _ \<Rightarrow> (Inl InvalidParticipants, s)))"

record BookingBody =
  bb_orderId :: oid
  bb_reviewerId :: oid
  bb_scheduledDate :: date
  bb_duration :: "int option"
  bb_customerNotes :: "string option"

text \<open>
  The booking route (\<^verbatim>\<open>POST\<close> of the consultations API): the session user must own the
  order; the slot test looks for a SCHEDULED or IN_PROGRESS consultation of the reviewer
  whose \<^verbatim>\<open>scheduledDate\<close> equals the requested one. The relational schema of this route's
  store is not part of the sources; the created row takes the same defaults as the
  document model.
\<close>

definition POST_consultations ::
  "env \<Rightarrow> oid option \<Rightarrow> BookingBody \<Rightarrow> store \<Rightarrow> (error + IConsultation) \<times> store" where
  "POST_consultations e session body s =
     (case session of
        None \<Rightarrow> (Inl Unauthorized, s)
      | Some userId \<Rightarrow>
          (case find (\<lambda>(i, ord). i = bb_orderId body \<and> o_customerId ord = userId) (orders s) of
             None \<Rightarrow> (Inl NotFound, s)
           | Some order \<Rightarrow>
               (case find (\<lambda>(i, c). c_reviewerId c = bb_reviewerId body
                                   \<and> c_scheduledDate c = bb_scheduledDate body
                                   \<and> c_status c \<in> set [Cons_SCHEDULED, Cons_IN_PROGRESS])
                       (consultations s) of
                  Some existingConsultation \<Rightarrow> (Inl SlotTaken, s)
                | None \<Rightarrow>
                    (let duration = (case bb_duration body of None \<Rightarrow> 60
                                     | Some d \<Rightarrow> if d \<noteq> 0 then d else 60);
                         consultation =
                           new_Consultation (bb_orderId body) userId (bb_reviewerId body)
                             (bb_scheduledDate body) duration None (bb_customerNotes body);
                         s1 = s\<lparr>consultations :=
                                  AList.update (new_id e) consultation (consultations s)\<rparr>;
                         s2 = Notification_create
                                \<lparr>n_userId = bb_reviewerId body, n_orderId = Some (bb_orderId body),
                                 n_title = ''New Consultation Scheduled'',
                                 n_type = CONSULTATION_SCHEDULED\<rparr> s1
                     in (Inr consultation, s2)))))"

text \<open>
  The availability route (\<^verbatim>\<open>GET\<close> of the slots API) decides whether a 60-minute slot
  starting at \<open>slotTime\<close> is booked by interval overlap with the reviewer's SCHEDULED and
  IN_PROGRESS consultations (start date and duration in minutes).
\<close>

definition isBooked :: "date \<Rightarrow> (date \<times> int) list \<Rightarrow> bool" where
  "isBooked slotTime existingConsultations =
     list_ex (\<lambda>(scheduledDate, duration).
                (let consultationStart = scheduledDate;
                     consultationEnd = consultationStart + duration * 60000;
                     slotEnd = slotTime + 60 * 60000
                 in slotTime < consultationEnd \<and> slotEnd > consultationStart))
       existingConsultations"

subsection \<open>Transitions\<close>


record CompleteConsultationData =
  cc_notes :: "string option"
  cc_customerNotes :: "string option"
  cc_reviewerNotes :: "string option"

definition assign_CompleteConsultationData ::
  "IConsultation \<Rightarrow> CompleteConsultationData \<Rightarrow> IConsultation" where
  "assign_CompleteConsultationData consultation d =
     (let c1 = (case cc_notes d of None \<Rightarrow> consultation
                | Some t \<Rightarrow> consultation\<lparr>c_notes := Some (trim t)\<rparr>);
          c2 = (case cc_customerNotes d of None \<Rightarrow> c1
                | Some t \<Rightarrow> c1\<lparr>c_customerNotes := Some (trim t)\<rparr>);
          c3 = (case cc_reviewerNotes d of None \<Rightarrow> c2
                | Some t \<Rightarrow> c2\<lparr>c_reviewerNotes := Some (trim t)\<rparr>)
      in c3)"


text \<open>\<^verbatim>\<open>methods.cancel\<close>, up to its \<^verbatim>\<open>save\<close>.\<close>

definition Consultation_cancel :: "string option \<Rightarrow> IConsultation \<Rightarrow> IConsultation" where
  "Consultation_cancel reason this =
     (let c1 = this\<lparr>c_status := Cons_CANCELLED\<rparr>
      in case reason of
           None \<Rightarrow> c1
         | Some r \<Rightarrow>
             if r \<noteq> [] \<and> truthy_str (c_notes c1)
             then c1\<lparr>c_notes := map_option (\<lambda>n. trim (n @ [CHR 0x0A] @ ''Cancellation reason: '' @ r))
                                   (c_notes c1)\<rparr>
             else if r \<noteq> [] then c1\<lparr>c_notes := Some (trim (''Cancellation reason: '' @ r))\<rparr>
             else c1)"






subsection \<open>Writes that bypass the transition operations\<close>



text \<open>
  The handlers \<^verbatim>\<open>PUT\<close> and \<^verbatim>\<open>DELETE\<close> of the route of one consultation. Both look
  the consultation up among those the session user takes part in and then write it
  without reading its status: \<^verbatim>\<open>PUT\<close> copies the date and the status of the request
  body when they are given, the customer's notes for a customer, the reviewer's notes and
  the meeting link for a reviewer; \<^verbatim>\<open>DELETE\<close> sets the status to CANCELLED.
\<close>

record SessionUser =
  su_id :: oid
  su_role :: UserRole

record UpdateBody =
  ub_scheduledDate :: "date option"
  ub_status :: "ConsultationStatus option"
  ub_customerNotes :: "string option"
  ub_reviewerNotes :: "string option"
  ub_meetingLink :: "string option"

definition findFirst_participant ::
  "oid \<Rightarrow> oid \<Rightarrow> (oid \<times> IConsultation) list \<Rightarrow> (oid \<times> IConsultation) option" where
  "findFirst_participant cid userId cs =
     find (\<lambda>(i, c). i = cid \<and> (c_customerId c = userId \<or> c_reviewerId c = userId)) cs"

definition PUT_consultation ::
  "SessionUser option \<Rightarrow> oid \<Rightarrow> UpdateBody \<Rightarrow> store \<Rightarrow> (error + IConsultation) \<times> store" where
  "PUT_consultation session cid body s =
     (case session of
        None \<Rightarrow> (Inl Unauthorized, s)
      | Some user \<Rightarrow>
          (case findFirst_participant cid (su_id user) (consultations s) of
             None \<Rightarrow> (Inl NotFound, s)
           | Some (i, consultation) \<Rightarrow>
               (let c1 = (case ub_scheduledDate body of None \<Rightarrow> consultation
                          | Some d \<Rightarrow> consultation\<lparr>c_scheduledDate := d\<rparr>);
                    c2 = (case ub_status body of None \<Rightarrow> c1
                          | Some st \<Rightarrow> c1\<lparr>c_status := st\<rparr>);
                    c3 = (if su_role user = CUSTOMER \<and> ub_customerNotes body \<noteq> None
                          then c2\<lparr>c_customerNotes := ub_customerNotes body\<rparr> else c2);
                    c4 = (if su_role user = REVIEWER \<and> ub_reviewerNotes body \<noteq> None
                          then c3\<lparr>c_reviewerNotes := ub_reviewerNotes body\<rparr> else c3);
                    c5 = (if su_role user = REVIEWER \<and> ub_meetingLink body \<noteq> None
                          then c4\<lparr>c_meetingLink := ub_meetingLink body\<rparr> else c4)
                in (Inr c5, s\<lparr>consultations := AList.update cid c5 (consultations s)\<rparr>))))"

definition DELETE_consultation ::
  "SessionUser option \<Rightarrow> oid \<Rightarrow> store \<Rightarrow> (error + unit) \<times> store" where
  "DELETE_consultation session cid s =
     (case session of
        None \<Rightarrow> (Inl Unauthorized, s)
      | Some user \<Rightarrow>
          (case findFirst_participant cid (su_id user) (consultations s) of
             None \<Rightarrow> (Inl NotFound, s)
           | Some (i, consultation) \<Rightarrow>
               (Inr (),
                s\<lparr>consultations :=
                     AList.update cid (consultation\<lparr>c_status := Cons_CANCELLED\<rparr>)
                       (consultations s)\<rparr>)))"

section \<open>Sequences of ledger and order operations\<close>

text \<open>
  The payment operations of \<^verbatim>\<open>PaymentService\<close> and the status operations of
  \<^verbatim>\<open>OrderService\<close>, called one after the other, each with its own environment. A
  call that throws leaves behind whatever it had written before.
\<close>

datatype LedgerOp =
    CreatePayment CreatePaymentData
  | CompletePayment oid CompletePaymentData
  | FailPayment oid "string option"
  | RefundPayment oid RefundData
  | CancelPayment oid
  | RetryFailedPayment oid
  | AssignReviewer oid oid
  | UpdateOrderStatus oid OrderStatus
  | CancelOrder oid

definition run_op :: "env \<Rightarrow> LedgerOp \<Rightarrow> store \<Rightarrow> store" where
  "run_op e op s =
     (case op of
        CreatePayment d \<Rightarrow> snd (createPayment e d s)
      | CompletePayment pid d \<Rightarrow> snd (completePayment e pid d s)
      | FailPayment pid r \<Rightarrow> snd (failPayment e pid r s)
      | RefundPayment pid d \<Rightarrow> snd (refundPayment e pid d s)
      | CancelPayment pid \<Rightarrow> snd (cancelPayment e pid s)
      | RetryFailedPayment pid \<Rightarrow> snd (retryFailedPayment e pid s)
      | AssignReviewer orderId reviewerId \<Rightarrow> snd (assignReviewer e orderId reviewerId s)
      | UpdateOrderStatus orderId status \<Rightarrow> snd (updateOrderStatus e orderId status s)
      | CancelOrder orderId \<Rightarrow> snd (cancelOrder e orderId s))"

fun run_ops :: "(env \<times> LedgerOp) list \<Rightarrow> store \<Rightarrow> store" where
  "run_ops [] s = s"
| "run_ops ((e, op) # rest) s = run_ops rest (run_op e op s)"

text \<open>
  What a call credits to an order: the amount of the payment when it is a successful
  completion of a payment of that order, minus the refunded amount when it is a successful
  refund of a payment of that order, and nothing otherwise.
\<close>

definition credit :: "env \<Rightarrow> LedgerOp \<Rightarrow> store \<Rightarrow> oid \<Rightarrow> int" where
  "credit e op s orderId =
     (case op of
        CompletePayment pid d \<Rightarrow>
          (case fst (completePayment e pid d s) of
             Inr p \<Rightarrow> if p_orderId p = orderId then p_amount p else 0
           | Inl err \<Rightarrow> 0)
      | RefundPayment pid d \<Rightarrow>
          (case fst (refundPayment e pid d s) of
             Inr p \<Rightarrow> if p_orderId p = orderId then - refundAmount_of d p else 0
           | Inl err \<Rightarrow> 0)
      | _ \<Rightarrow> 0)"

fun ledger :: "(env \<times> LedgerOp) list \<Rightarrow> store \<Rightarrow> oid \<Rightarrow> int" where
  "ledger [] s orderId = 0"
| "ledger ((e, op) # rest) s orderId = credit e op s orderId + ledger rest (run_op e op s) orderId"

text \<open>
  A consistent ledger: identifiers are unique, payment amounts are not negative, the
  customer of every order resolves, and every order has been credited at least the
  amounts of its payments that are COMPLETED right now.
\<close>

definition completed_amount :: "oid \<Rightarrow> IPayment \<Rightarrow> int" where
  "completed_amount orderId p =
     (if p_orderId p = orderId \<and> p_status p = Pay_COMPLETED then p_amount p else 0)"

definition total_completed :: "oid \<Rightarrow> (oid \<times> IPayment) list \<Rightarrow> int" where
  "total_completed orderId ps = sum_list (map (\<lambda>(i, p). completed_amount orderId p) ps)"

definition ledger_ok ::
  "(oid \<times> IUser) list \<Rightarrow> (oid \<times> IOrder) list \<Rightarrow> (oid \<times> IPayment) list \<Rightarrow> bool" where
  "ledger_ok us os ps =
     (distinct (map fst ps) \<and> distinct (map fst os)
      \<and> list_all (\<lambda>(i, p). 0 \<le> p_amount p) ps
      \<and> list_all (\<lambda>(k, ord). map_of us (o_customerId ord) \<noteq> None) os
      \<and> list_all (\<lambda>(k, ord). total_completed k ps \<le> o_paidAmount ord) os)"

definition ledger_inv :: "store \<Rightarrow> bool" where
  "ledger_inv s = ledger_ok (users s) (orders s) (payments s)"

section \<open>Concrete stores\<close>

text \<open>
  A small store used to run the operations: customer 1, reviewer 2, a third user 3;
  three orders of customer 1 (10 pending, 11 assigned, 12 completed), a pending and a
  completed payment, an open review, a document of order 10, and two consultations of
  reviewer 2 (60 scheduled at time 10000000 for 60 minutes, 61 scheduled at time 50000000
  and in progress since time 900). The clock of the first call reads 1000.
\<close>

definition env0 :: env where
  "env0 = \<lparr>now = 1000, fresh = ''k3x9'', new_id = 50\<rparr>"

definition env1 :: env where
  "env1 = \<lparr>now = 2000, fresh = ''q7m2'', new_id = 51\<rparr>"

definition users0 :: "(oid \<times> IUser) list" where
  "users0 = [(1, \<lparr>u_role = CUSTOMER, u_isActive = True\<rparr>),
             (2, \<lparr>u_role = REVIEWER, u_isActive = True\<rparr>),
             (3, \<lparr>u_role = CUSTOMER, u_isActive = True\<rparr>)]"

definition order_pending :: IOrder where
  "order_pending =
     \<lparr>o_orderNumber = ''ORD-A'', o_customerId = 1, o_reviewerId = None,
      o_status = Order_PENDING_REVIEW, o_totalAmount = 350, o_paidAmount = 0,
      o_dueDate = None, o_assignedAt = None, o_completedAt = None\<rparr>"

definition order_assigned :: IOrder where
  "order_assigned =
     \<lparr>o_orderNumber = ''ORD-B'', o_customerId = 1, o_reviewerId = Some 2,
      o_status = Order_ASSIGNED, o_totalAmount = 350, o_paidAmount = 0,
      o_dueDate = None, o_assignedAt = Some 500, o_completedAt = None\<rparr>"

definition order_completed :: IOrder where
  "order_completed =
     \<lparr>o_orderNumber = ''ORD-C'', o_customerId = 1, o_reviewerId = Some 2,
      o_status = Order_COMPLETED, o_totalAmount = 350, o_paidAmount = 350,
      o_dueDate = None, o_assignedAt = Some 500, o_completedAt = Some 700\<rparr>"

definition payment_pending :: IPayment where
  "payment_pending =
     \<lparr>p_orderId = 10, p_amount = 100, p_currency = ''USD'', p_status = Pay_PENDING,
      p_paymentMethod = CREDIT_CARD, p_transactionId = None, p_cardLast4 = None,
      p_cardBrand = None, p_failureReason = None, p_refundId = None,
      p_refundAmount = None, p_refundReason = None, p_fee = 0, p_netAmount = Some 100,
      p_processedAt = None, p_refundedAt = None\<rparr>"

definition payment_completed :: IPayment where
  "payment_completed =
     \<lparr>p_orderId = 12, p_amount = 350, p_currency = ''USD'', p_status = Pay_COMPLETED,
      p_paymentMethod = CREDIT_CARD, p_transactionId = Some ''txn_a1'', p_cardLast4 = None,
      p_cardBrand = None, p_failureReason = None, p_refundId = None,
      p_refundAmount = None, p_refundReason = None, p_fee = 0, p_netAmount = Some 350,
      p_processedAt = Some 600, p_refundedAt = None\<rparr>"

definition review_open :: IReview where
  "review_open =
     \<lparr>r_orderId = 11, r_reviewerId = 2, r_recommendations = None, r_attachments = [],
      r_ratings = None, r_isComplete = False\<rparr>"

definition document_active :: IDocument where
  "document_active =
     \<lparr>d_orderId = 10, d_fileSize = 2048, d_filePath = ''uploads/10/scan.pdf'',
      d_uploadedBy = 1, d_isActive = True, d_downloadCount = 0\<rparr>"

definition consultation_scheduled :: IConsultation where
  "consultation_scheduled = new_Consultation 11 1 2 10000000 60 None None"

definition consultation_in_progress :: IConsultation where
  "consultation_in_progress =
     (new_Consultation 12 1 2 50000000 60 None None)
       \<lparr>c_status := Cons_IN_PROGRESS, c_actualStartTime := Some 900\<rparr>"

definition store0 :: store where
  "store0 =
     \<lparr>users = users0,
      orders = [(10, order_pending), (11, order_assigned), (12, order_completed)],
      payments = [(20, payment_pending), (21, payment_completed)],
      reviews = [(30, review_open)],
      documents = [(40, document_active)],
      consultations = [(60, consultation_scheduled), (61, consultation_in_progress)],
      notifications = []\<rparr>"




text \<open>
  Two call sequences on order 10 (total 350, nothing paid): a payment of 100 is created
  and completed, the order status is updated, and 30 are refunded; and a payment of 500
  is created and completed.
\<close>

definition env2 :: env where
  "env2 = \<lparr>now = 3000, fresh = ''w5c8'', new_id = 52\<rparr>"

definition env3 :: env where
  "env3 = \<lparr>now = 4000, fresh = ''z1b6'', new_id = 53\<rparr>"

definition calls_partial_refund :: "(env \<times> LedgerOp) list" where
  "calls_partial_refund =
     [(env0, CreatePayment \<lparr>cp_orderId = 10, cp_amount = 100, cp_currency = None,
                            cp_paymentMethod = CREDIT_CARD\<rparr>),
      (env1, CompletePayment 50 \<lparr>cd_transactionId = Some ''ch_1'', cd_cardLast4 = None,
                                 cd_cardBrand = None, cd_fee = Some 3\<rparr>),
      (env2, UpdateOrderStatus 10 Order_IN_PROGRESS),
      (env3, RefundPayment 50 \<lparr>rd_amount = Some 30, rd_reason = None, rd_refundId = None\<rparr>)]"

definition calls_overpay :: "(env \<times> LedgerOp) list" where
  "calls_overpay =
     [(env0, CreatePayment \<lparr>cp_orderId = 10, cp_amount = 500, cp_currency = None,
                            cp_paymentMethod = CREDIT_CARD\<rparr>),
      (env1, CompletePayment 50 \<lparr>cd_transactionId = Some ''ch_2'', cd_cardLast4 = None,
                                 cd_cardBrand = None, cd_fee = None\<rparr>)]"

section \<open>Properties\<close>

lemmas example_defs =
  env0_def env1_def users0_def order_pending_def order_assigned_def order_completed_def
  payment_pending_def payment_completed_def review_open_def document_active_def
  consultation_scheduled_def consultation_in_progress_def store0_def new_Consultation_def

subsection \<open>Order lifecycle\<close>

text \<open>
  Claim C7, as the code has it. For every order whose status is not PENDING_REVIEW and
  every reviewer id, \<open>assignReviewer\<close> fails and leaves the store, hence every field of
  the order, unmodified. The reviewer is looked up before the order: the error is
  \<open>InvalidState\<close> when the reviewer id resolves to an active user with role REVIEWER,
  and \<open>InvalidReviewer\<close> when it does not.
\<close>

theorem assignReviewer_not_pending:
  assumes "map_of (orders s) orderId = Some order"
    and "o_status order \<noteq> Order_PENDING_REVIEW"
  shows "assignReviewer e orderId reviewerId s =
           (Inl (if (\<exists>u. map_of (users s) reviewerId = Some u \<and> u_isActive u \<and> u_role u = REVIEWER)
                 then InvalidState else InvalidReviewer), s)"
  using assms
  by (auto simp: assignReviewer_def canBeAssigned_def isReviewer_def split: option.splits)

theorem assignReviewer_not_pending_witness:
  "assignReviewer env0 11 2 store0 = (Inl InvalidState, store0)
   \<and> assignReviewer env0 12 7 store0 = (Inl InvalidReviewer, store0)"
  using assignReviewer_not_pending [of store0 11 order_assigned env0 2]
        assignReviewer_not_pending [of store0 12 order_completed env0 7]
  by (simp add: example_defs)

text \<open>
  Claim C7 as stated fails: order 11 is ASSIGNED and reviewer id 7 resolves to no user;
  the call fails with \<open>InvalidReviewer\<close>, not with \<open>InvalidState\<close>.
\<close>

theorem assignReviewer_unknown_reviewer_counterexample:
  "map_of (orders store0) 11 = Some order_assigned
   \<and> o_status order_assigned \<noteq> Order_PENDING_REVIEW
   \<and> fst (assignReviewer env0 11 7 store0) \<noteq> Inl InvalidState"
  by (simp add: assignReviewer_def example_defs)

text \<open>
  Claim C5, as the code has it. For every order whose \<open>completedAt\<close> is set:
  \<open>updateOrderStatus\<close> with COMPLETED overwrites it with the current time, and with any
  other status leaves it as it was; \<open>assignReviewer\<close> and \<open>cancelOrder\<close> leave it as it
  was, whether they succeed or fail.
\<close>

theorem completedAt_after_order_operations:
  assumes "map_of (orders s) orderId = Some order"
    and "o_completedAt order = Some t"
  shows "map_option o_completedAt
           (map_of (orders (snd (updateOrderStatus e orderId status s))) orderId)
           = Some (Some (if status = Order_COMPLETED then now e else t))
       \<and> map_option o_completedAt
           (map_of (orders (snd (assignReviewer e orderId reviewerId s))) orderId) = Some (Some t)
       \<and> map_option o_completedAt
           (map_of (orders (snd (cancelOrder e orderId s))) orderId) = Some (Some t)"
proof -
  have upd: "map_option o_completedAt
           (map_of (orders (snd (updateOrderStatus e orderId status s))) orderId)
           = Some (Some (if status = Order_COMPLETED then now e else t))"
    using assms
    by (simp add: updateOrderStatus_def Order_save_def Order_pre_save_def
          Notification_create_def Let_def update_conv')
  have asg: "map_option o_completedAt
           (map_of (orders (snd (assignReviewer e orderId reviewerId s))) orderId) = Some (Some t)"
    using assms
    by (simp add: assignReviewer_def Order_save_def Order_pre_save_def
          Notification_create_def Let_def update_conv' split: option.splits)
  have can: "map_option o_completedAt
           (map_of (orders (snd (cancelOrder e orderId s))) orderId) = Some (Some t)"
    using assms
    by (simp add: cancelOrder_def Order_save_def Order_pre_save_def
          Notification_create_def Let_def update_conv')
  from upd asg can show ?thesis by simp
qed

theorem completedAt_after_order_operations_witness:
  "map_option o_completedAt
     (map_of (orders (snd (updateOrderStatus env0 12 Order_REFUNDED store0))) 12) = Some (Some 700)
   \<and> map_option o_completedAt
     (map_of (orders (snd (updateOrderStatus env0 12 Order_COMPLETED store0))) 12) = Some (Some 1000)
   \<and> map_option o_completedAt
     (map_of (orders (snd (cancelOrder env0 12 store0))) 12) = Some (Some 700)"
  using completedAt_after_order_operations [of store0 12 order_completed 700 env0 Order_REFUNDED 2]
        completedAt_after_order_operations [of store0 12 order_completed 700 env0 Order_COMPLETED 2]
  by (simp add: example_defs)

text \<open>
  Claim C5 as stated fails: order 12 was completed at time 700; a status update to
  COMPLETED at time 1000 replaces the completion date.
\<close>

theorem completedAt_overwritten_counterexample:
  "map_of (orders store0) 12 = Some order_completed
   \<and> o_completedAt order_completed = Some 700
   \<and> map_option o_completedAt
        (map_of (orders (snd (updateOrderStatus env0 12 Order_COMPLETED store0))) 12)
      = Some (Some 1000)"
  by (simp add: updateOrderStatus_def Order_save_def Order_pre_save_def
        Notification_create_def Let_def example_defs)

subsection \<open>Payment ledger\<close>

lemma Payment_pre_save_status [simp]: "p_status (Payment_pre_save e p) = p_status p"
  by (simp add: Payment_pre_save_def Let_def)

lemma Payment_pre_save_orderId [simp]: "p_orderId (Payment_pre_save e p) = p_orderId p"
  by (simp add: Payment_pre_save_def Let_def)

lemma Payment_pre_save_amount [simp]: "p_amount (Payment_pre_save e p) = p_amount p"
  by (simp add: Payment_pre_save_def Let_def)

lemma Payment_post_save_quiet:
  "p_status doc \<noteq> Pay_COMPLETED \<Longrightarrow> p_status doc \<noteq> Pay_FAILED \<Longrightarrow> Payment_post_save doc s = (None, s)"
  by (simp add: Payment_post_save_def)

lemma Payment_save_quiet:
  "p_status this \<noteq> Pay_COMPLETED \<Longrightarrow> p_status this \<noteq> Pay_FAILED \<Longrightarrow>
   Payment_save e pid valid this s =
     (if \<not> valid then (Inl ValidationError, s)
      else if txn_conflict pid (Payment_pre_save e this) (payments s) then (Inl DuplicateKey, s)
      else (Inr (Payment_pre_save e this),
            s\<lparr>payments := AList.update pid (Payment_pre_save e this) (payments s)\<rparr>))"
  by (simp add: Payment_save_def Let_def Payment_post_save_quiet)

text \<open>What \<open>refundPayment\<close> does once its guards have passed.\<close>

lemma refundPayment_unfold:
  assumes "map_of (payments s) pid = Some p" "p_status p = Pay_COMPLETED"
    "\<not> refundAmount_of d p > p_amount p"
  shows "refundPayment e pid d s =
     (let doc = Payment_refund e (refundAmount_of d p) (rd_reason d) (rd_refundId d) p;
          saved = Payment_pre_save e doc
      in if \<not> (assigned_ok (\<lambda>r. 0 \<le> r) (p_refundAmount doc) \<and> maxlength 500 (p_refundReason doc))
         then (Inl ValidationError, s)
         else if txn_conflict pid saved (payments s) then (Inl DuplicateKey, s)
         else (case map_of (orders s) (p_orderId p) of
                 None \<Rightarrow> (Inr saved, s\<lparr>payments := AList.update pid saved (payments s)\<rparr>)
               | Some order \<Rightarrow>
                   (Inr saved,
                    s\<lparr>payments := AList.update pid saved (payments s),
                      orders := AList.update (p_orderId p)
                         (Order_pre_save e (order\<lparr>o_paidAmount := max 0 (o_paidAmount order - refundAmount_of d p)\<rparr>))
                         (orders s),
                      notifications := notifications s @
                         [\<lparr>n_userId = o_customerId order, n_orderId = Some (p_orderId p),
                           n_title = ''Payment Refunded'', n_type = PAYMENT_RECEIVED\<rparr>]\<rparr>)))"
proof -
  have st: "p_status (Payment_refund e (refundAmount_of d p) (rd_reason d) (rd_refundId d) p) = Pay_REFUNDED"
    and oi: "p_orderId (Payment_refund e (refundAmount_of d p) (rd_reason d) (rd_refundId d) p) = p_orderId p"
    by (simp_all add: Payment_refund_def)
  show ?thesis
    using assms
    by (simp add: refundPayment_def Let_def Payment_save_quiet st oi Order_save_def
          Notification_create_def split: option.splits)
qed

text \<open>
  Claim C2. For a stored payment: (1) when its status is COMPLETED (and its amount is
  positive, as the schema requires), a refund of more than the original amount fails with
  \<open>InvalidAmount\<close> and leaves the whole store, hence the payment and its order,
  unmodified; (2) when its status is not COMPLETED, a refund fails with \<open>InvalidState\<close>
  and leaves the store unmodified; (3) when a refund succeeds, the stored payment has status
  REFUNDED and records the refund amount, and the parent order's \<open>paidAmount\<close> is the
  previous one less the refund amount, floored at 0.
\<close>

theorem refundPayment_contract:
  assumes "map_of (payments s) pid = Some p"
  shows "(p_status p = Pay_COMPLETED \<longrightarrow> 0 < p_amount p \<longrightarrow> p_amount p < a \<longrightarrow>
            refundPayment e pid \<lparr>rd_amount = Some a, rd_reason = r, rd_refundId = i\<rparr> s
              = (Inl InvalidAmount, s))
       \<and> (p_status p \<noteq> Pay_COMPLETED \<longrightarrow> refundPayment e pid d s = (Inl InvalidState, s))
       \<and> (\<forall>p' s'. refundPayment e pid d s = (Inr p', s') \<longrightarrow>
             p_status p' = Pay_REFUNDED
             \<and> map_of (payments s') pid = Some p'
             \<and> p_refundAmount p' = Some (refundAmount_of d p)
             \<and> (\<forall>ord. map_of (orders s) (p_orderId p) = Some ord \<longrightarrow>
                   map_option o_paidAmount (map_of (orders s') (p_orderId p))
                     = Some (max 0 (o_paidAmount ord - refundAmount_of d p))))"
proof (intro conjI impI allI)
  assume "p_status p = Pay_COMPLETED" "0 < p_amount p" "p_amount p < a"
  with assms show "refundPayment e pid \<lparr>rd_amount = Some a, rd_reason = r, rd_refundId = i\<rparr> s
              = (Inl InvalidAmount, s)"
    by (simp add: refundPayment_def refundAmount_of_def)
next
  assume "p_status p \<noteq> Pay_COMPLETED"
  with assms show "refundPayment e pid d s = (Inl InvalidState, s)"
    by (simp add: refundPayment_def)
next
  fix p' s' assume ok: "refundPayment e pid d s = (Inr p', s')"
  from ok assms have st: "p_status p = Pay_COMPLETED" and le: "\<not> refundAmount_of d p > p_amount p"
    by (auto simp: refundPayment_def Let_def split: if_splits)
  note u = refundPayment_unfold [OF assms st le, of e]
  let ?doc = "Payment_refund e (refundAmount_of d p) (rd_reason d) (rd_refundId d) p"
  from ok u have p': "p' = Payment_pre_save e ?doc"
    by (auto simp: Let_def split: if_splits option.splits)
  show "p_status p' = Pay_REFUNDED" using p' by (simp add: Payment_refund_def)
  show "map_of (payments s') pid = Some p'" using ok u p'
    by (auto simp: Let_def update_conv' split: if_splits option.splits)
  show "p_refundAmount p' = Some (refundAmount_of d p)" using p'
    by (simp add: Payment_pre_save_def Payment_refund_def Let_def refundAmount_of_def split: option.splits)
  fix ord assume "map_of (orders s) (p_orderId p) = Some ord"
  with ok u show "map_option o_paidAmount (map_of (orders s') (p_orderId p))
                     = Some (max 0 (o_paidAmount ord - refundAmount_of d p))"
    by (auto simp: Let_def update_conv' Order_pre_save_def split: if_splits)
qed

theorem refundPayment_contract_witness:
  "refundPayment env0 21 \<lparr>rd_amount = Some 400, rd_reason = None, rd_refundId = None\<rparr> store0
     = (Inl InvalidAmount, store0)
   \<and> refundPayment env0 20 \<lparr>rd_amount = Some 10, rd_reason = None, rd_refundId = None\<rparr> store0
     = (Inl InvalidState, store0)
   \<and> map_option p_status
       (map_of (payments (snd (refundPayment env0 21
          \<lparr>rd_amount = Some 100, rd_reason = None, rd_refundId = None\<rparr> store0))) 21)
     = Some Pay_REFUNDED
   \<and> map_option o_paidAmount
       (map_of (orders (snd (refundPayment env0 21
          \<lparr>rd_amount = Some 100, rd_reason = None, rd_refundId = None\<rparr> store0))) 12)
     = Some 250"
proof -
  have f: "map_of (payments store0) 21 = Some payment_completed"
    and g: "map_of (payments store0) 20 = Some payment_pending"
    by (simp_all add: example_defs)
  from refundPayment_contract [OF f, of 400 env0 None None "\<lparr>rd_amount = Some 100, rd_reason = None, rd_refundId = None\<rparr>"]
       refundPayment_contract [OF g, of 400 env0 None None "\<lparr>rd_amount = Some 10, rd_reason = None, rd_refundId = None\<rparr>"]
  show ?thesis
    by (simp add: refundPayment_def refundAmount_of_def Payment_refund_def Payment_save_def
          Payment_pre_save_def Payment_post_save_def txn_conflict_def assigned_ok_def
          maxlength_def truthy_str_def truthy_num_def Order_save_def Order_pre_save_def
          Notification_create_def Let_def example_defs)
qed

text \<open>
  Claim C10. \<open>cancelPayment\<close> on a stored payment: with status PENDING the payment is
  saved with status CANCELLED (the write is refused only when the transaction id that the
  pre-save hook fills in is already taken under the unique index, and then nothing
  changes); with any other status the call fails (\<^verbatim>\<open>'Can only cancel pending payments'\<close>)
  and leaves the store unmodified.
\<close>

theorem cancelPayment_contract:
  assumes "map_of (payments s) pid = Some p"
  shows "(p_status p = Pay_PENDING \<longrightarrow>
            (let p' = Payment_pre_save e (p\<lparr>p_status := Pay_CANCELLED\<rparr>)
             in p_status p' = Pay_CANCELLED
                \<and> cancelPayment e pid s =
                    (if txn_conflict pid p' (payments s) then (Inl DuplicateKey, s)
                     else (Inr p', s\<lparr>payments := AList.update pid p' (payments s)\<rparr>))))
       \<and> (p_status p \<noteq> Pay_PENDING \<longrightarrow> cancelPayment e pid s = (Inl InvalidState, s))"
  using assms
  by (simp add: cancelPayment_def Payment_save_def Let_def Payment_post_save_quiet)

theorem cancelPayment_contract_witness:
  "map_option p_status (map_of (payments (snd (cancelPayment env0 20 store0))) 20) = Some Pay_CANCELLED
   \<and> cancelPayment env0 21 store0 = (Inl InvalidState, store0)"
  using cancelPayment_contract [of store0 20 payment_pending env0]
        cancelPayment_contract [of store0 21 payment_completed env0]
  by (simp add: example_defs txn_conflict_def Payment_pre_save_def truthy_str_def truthy_num_def Let_def)

lemmas run_defs =
  createPayment_def completePayment_def assign_CompletePaymentData_def Payment_complete_def
  Payment_save_def Payment_pre_save_def Payment_post_save_def notify_populated_customer_def
  Order_inc_paidAmount_def txn_conflict_def assigned_ok_def maxlength_def truthy_str_def
  truthy_num_def valid_currency_def to_upper_def trim_def is_space_def
  Order_save_def Order_pre_save_def Notification_create_def Let_def

text \<open>
  What \<open>completePayment\<close> guarantees for a stored payment: it fails with
  \<open>AlreadyCompleted\<close> on a COMPLETED payment and changes nothing; when it succeeds the
  stored payment is COMPLETED, \<open>processedAt\<close> is the time of the call, the parent order's
  \<open>paidAmount\<close> has grown by the payment's amount and the order's customer has one more
  notification. The net amount is \<open>amount - fee\<close> only if it was unset (or 0) before the
  call; otherwise it keeps its value.
\<close>

lemma completePayment_effect:
  assumes "map_of (payments s) pid = Some p"
  shows "(p_status p = Pay_COMPLETED \<longrightarrow> completePayment e pid d s = (Inl AlreadyCompleted, s))
       \<and> (\<forall>p' s'. completePayment e pid d s = (Inr p', s') \<longrightarrow>
             p_status p' = Pay_COMPLETED
             \<and> p_processedAt p' = Some (now e)
             \<and> p_netAmount p' = (if truthy_num (p_netAmount p) then p_netAmount p
                                   else Some (p_amount p - p_fee p'))
             \<and> map_of (payments s') pid = Some p'
             \<and> (\<forall>ord. map_of (orders s) (p_orderId p) = Some ord \<longrightarrow>
                   map_option o_paidAmount (map_of (orders s') (p_orderId p))
                     = Some (o_paidAmount ord + p_amount p)
                   \<and> (\<exists>n. notifications s' = notifications s @ [n]
                          \<and> n_userId n = o_customerId ord \<and> n_type n = PAYMENT_RECEIVED)))"
proof (intro conjI impI allI)
  assume "p_status p = Pay_COMPLETED"
  with assms show "completePayment e pid d s = (Inl AlreadyCompleted, s)"
    by (simp add: completePayment_def)
next
  fix p' s' assume ok: "completePayment e pid d s = (Inr p', s')"
  let ?doc = "Payment_complete e (cd_transactionId d) (assign_CompletePaymentData p d)"
  have doc: "p_status ?doc = Pay_COMPLETED" "p_processedAt ?doc = Some (now e)"
    "p_amount ?doc = p_amount p" "p_orderId ?doc = p_orderId p"
    "p_netAmount ?doc = p_netAmount p"
    by (simp_all add: Payment_complete_def assign_CompletePaymentData_def Let_def
          split: option.splits)
  from ok assms obtain valid where
    sv: "Payment_save e pid valid ?doc s = (Inr p', s')"
    by (auto simp: completePayment_def Let_def split: if_splits)
  then have p': "p' = Payment_pre_save e ?doc"
    by (auto simp: Payment_save_def Let_def split: if_splits prod.splits option.splits)
  show "p_status p' = Pay_COMPLETED" using p' doc by simp
  show "p_processedAt p' = Some (now e)" using p' doc
    by (simp add: Payment_pre_save_def Let_def)
  show "p_netAmount p' = (if truthy_num (p_netAmount p) then p_netAmount p
                                   else Some (p_amount p - p_fee p'))"
    using p' doc by (simp add: Payment_pre_save_def Let_def)
  from sv p' have post: "Payment_post_save p' (s\<lparr>payments := AList.update pid p' (payments s)\<rparr>) = (None, s')"
    by (auto simp: Payment_save_def Let_def split: if_splits prod.splits option.splits)
  show "map_of (payments s') pid = Some p'"
    using post p' doc
    by (auto simp: Payment_post_save_def notify_populated_customer_def Order_inc_paidAmount_def
          Notification_create_def update_conv' Let_def split: if_splits option.splits)
  fix ord assume o: "map_of (orders s) (p_orderId p) = Some ord"
  from o post p' doc
  show "map_option o_paidAmount (map_of (orders s') (p_orderId p))
                     = Some (o_paidAmount ord + p_amount p)"
    by (auto simp: Payment_post_save_def notify_populated_customer_def Order_inc_paidAmount_def
          Notification_create_def update_conv' Let_def split: if_splits option.splits)
  from o post p' doc
  show "\<exists>n. notifications s' = notifications s @ [n]
                          \<and> n_userId n = o_customerId ord \<and> n_type n = PAYMENT_RECEIVED"
    by (auto simp: Payment_post_save_def notify_populated_customer_def Order_inc_paidAmount_def
          Notification_create_def update_conv' Let_def split: if_splits option.splits)
qed

text \<open>
  Claim C3, on the code. A payment of 100 is created (the first save stores
  \<open>netAmount = amount = 100\<close>, the fee being 0) and then completed with a fee of 3. The
  completed payment has status COMPLETED, amount 100 and fee 3, and its \<open>netAmount\<close> is
  still 100 instead of \<open>amount - fee = 97\<close>: the pre-save hook computes the net amount
  only while it is unset.
\<close>

theorem completePayment_netAmount_stale:
  "map_option (\<lambda>p. (p_status p, p_amount p, p_fee p, p_netAmount p))
     (map_of (payments (snd (createPayment env0
        \<lparr>cp_orderId = 10, cp_amount = 100, cp_currency = None, cp_paymentMethod = CREDIT_CARD\<rparr>
        store0))) 50)
     = Some (Pay_PENDING, 100, 0, Some 100)
   \<and> map_option (\<lambda>p. (p_status p, p_amount p, p_fee p, p_netAmount p))
     (map_of (payments (snd (completePayment env1 50
        \<lparr>cd_transactionId = Some ''ch_1'', cd_cardLast4 = None, cd_cardBrand = None, cd_fee = Some 3\<rparr>
        (snd (createPayment env0
           \<lparr>cp_orderId = 10, cp_amount = 100, cp_currency = None, cp_paymentMethod = CREDIT_CARD\<rparr>
           store0))))) 50)
     = Some (Pay_COMPLETED, 100, 3, Some 100)"
  by (simp add: run_defs example_defs)

subsection \<open>Review workflow\<close>

lemma completeReview_unfold:
  assumes "map_of (reviews s) rid = Some r" "\<not> r_isComplete r"
  shows "completeReview e rid d s =
     (let r2 = (case d of None \<Rightarrow> r | Some x \<Rightarrow> assign_CompleteReviewData r x)\<lparr>r_isComplete := True\<rparr>
      in if \<not> (case d of None \<Rightarrow> True
                | Some x \<Rightarrow> maxlength 5000 (map_option trim (cr_recommendations x))
                            \<and> assigned_ok valid_Ratings (cr_ratings x))
         then (Inl ValidationError, s)
         else (Inr r2,
               Review_post_save e r2 (s\<lparr>reviews := AList.update rid r2 (reviews s)\<rparr>)))"
  using assms by (simp add: completeReview_def Review_save_def Let_def)

lemma assign_CompleteReviewData_orderId [simp]:
  "r_orderId (assign_CompleteReviewData r x) = r_orderId r"
  by (simp add: assign_CompleteReviewData_def Let_def split: option.splits)

text \<open>
  Claim C6. For a stored review: when it is already complete, \<open>completeReview\<close> fails with
  \<open>AlreadyComplete\<close> and changes nothing; when it is not, the call without extra data
  succeeds, and every successful call stores the review with \<open>isComplete = true\<close>, makes
  any later call fail with \<open>AlreadyComplete\<close>, and sets the parent order (when it
  resolves) to status COMPLETED with \<open>completedAt\<close> the time of the call.
\<close>

theorem completeReview_contract:
  assumes "map_of (reviews s) rid = Some r"
  shows "(r_isComplete r \<longrightarrow> completeReview e rid d s = (Inl AlreadyComplete, s))
       \<and> (\<not> r_isComplete r \<longrightarrow>
            (\<exists>r' s'. completeReview e rid None s = (Inr r', s'))
            \<and> (\<forall>r' s'. completeReview e rid d s = (Inr r', s') \<longrightarrow>
                  r_isComplete r'
                  \<and> map_of (reviews s') rid = Some r'
                  \<and> completeReview e2 rid d2 s' = (Inl AlreadyComplete, s')
                  \<and> (\<forall>ord. map_of (orders s) (r_orderId r) = Some ord \<longrightarrow>
                        map_option (\<lambda>x. (o_status x, o_completedAt x))
                          (map_of (orders s') (r_orderId r))
                        = Some (Order_COMPLETED, Some (now e)))))"
proof (intro conjI impI allI)
  assume "r_isComplete r"
  with assms show "completeReview e rid d s = (Inl AlreadyComplete, s)"
    by (simp add: completeReview_def)
next
  assume nc: "\<not> r_isComplete r"
  show "\<exists>r' s'. completeReview e rid None s = (Inr r', s')"
    by (simp add: completeReview_unfold [OF assms nc] Let_def)
next
  fix r' s'
  assume nc: "\<not> r_isComplete r" and ok: "completeReview e rid d s = (Inr r', s')"
  note u = completeReview_unfold [OF assms nc, of e d]
  let ?r2 = "(case d of None \<Rightarrow> r | Some x \<Rightarrow> assign_CompleteReviewData r x)\<lparr>r_isComplete := True\<rparr>"
  from ok u have r': "r' = ?r2"
    and s': "s' = Review_post_save e ?r2 (s\<lparr>reviews := AList.update rid ?r2 (reviews s)\<rparr>)"
    by (auto simp: Let_def split: if_splits)
  show c: "r_isComplete r'" using r' by simp
  show st: "map_of (reviews s') rid = Some r'" using r' s'
    by (simp add: Review_post_save_def update_conv' split: option.splits)
  show "completeReview e2 rid d2 s' = (Inl AlreadyComplete, s')"
    using st c by (simp add: completeReview_def)
  fix ord assume "map_of (orders s) (r_orderId r) = Some ord"
  then show "map_option (\<lambda>x. (o_status x, o_completedAt x)) (map_of (orders s') (r_orderId r))
                        = Some (Order_COMPLETED, Some (now e))"
    using s' by (simp add: Review_post_save_def update_conv' split: option.splits)
qed

theorem completeReview_contract_witness:
  "fst (completeReview env0 30 None store0) = Inr (review_open\<lparr>r_isComplete := True\<rparr>)
   \<and> map_of (orders (snd (completeReview env0 30 None store0))) 11
       = Some (order_assigned\<lparr>o_status := Order_COMPLETED, o_completedAt := Some 1000\<rparr>)
   \<and> fst (completeReview env1 30 None (snd (completeReview env0 30 None store0)))
       = Inl AlreadyComplete"
proof -
  have f: "map_of (reviews store0) 30 = Some review_open" by (simp add: example_defs)
  have ev: "completeReview env0 30 None store0
              = (Inr (review_open\<lparr>r_isComplete := True\<rparr>), snd (completeReview env0 30 None store0))"
    by (simp add: completeReview_def Review_save_def Let_def example_defs)
  have ord: "map_of (orders store0) (r_orderId review_open) = Some order_assigned"
    by (simp add: example_defs)
  from completeReview_contract [OF f, of env0 None env1 None] ev ord
  show ?thesis
    by (simp add: example_defs completeReview_def Review_save_def Review_post_save_def Let_def)
qed

subsection \<open>Document registry\<close>

text \<open>
  What \<open>downloadDocument\<close> guarantees for an active document whose order resolves: a
  requester who passes the permission test gets the document and the counter grows by
  exactly 1 (the file being present and the document within the schema's bounds); when the
  order has a reviewer, a requester who is neither the customer nor that reviewer is
  rejected with \<open>Forbidden\<close> and nothing changes.
\<close>

lemma downloadDocument_effect:
  assumes "map_of (documents s) did = Some doc" "d_isActive doc"
    and "map_of (orders s) (d_orderId doc) = Some ord"
  shows "(userId = o_customerId ord \<or> o_reviewerId ord = Some userId \<or> o_reviewerId ord = None) \<longrightarrow>
           fs_access (d_filePath doc) \<longrightarrow> 0 \<le> d_downloadCount doc \<longrightarrow>
           d_fileSize doc \<le> 50 * 1024 * 1024 \<longrightarrow>
           downloadDocument fs_access did userId s
             = (Inr (doc\<lparr>d_downloadCount := d_downloadCount doc + 1\<rparr>, d_filePath doc),
                s\<lparr>documents := AList.update did (doc\<lparr>d_downloadCount := d_downloadCount doc + 1\<rparr>)
                                 (documents s)\<rparr>)"
    and "userId \<noteq> o_customerId ord \<longrightarrow> o_reviewerId ord = Some r \<longrightarrow> r \<noteq> userId \<longrightarrow>
           downloadDocument fs_access did userId s = (Inl Forbidden, s)"
  using assms
  by (auto simp: downloadDocument_def incrementDownloadCount_def Document_save_def)

text \<open>
  Claim C8, on the code. Document 40 belongs to order 10, whose customer is user 1 and
  which has no reviewer. User 3 is neither; the permission test lets the request through
  because its second conjunct is the null reviewer id, the download succeeds and the
  counter goes from 0 to 1.
\<close>

theorem downloadDocument_third_party:
  "map_of (orders store0) 10 = Some order_pending
   \<and> o_customerId order_pending = 1 \<and> o_reviewerId order_pending = None
   \<and> downloadDocument (\<lambda>path. True) 40 3 store0
       = (Inr (document_active\<lparr>d_downloadCount := 1\<rparr>, ''uploads/10/scan.pdf''),
          store0\<lparr>documents := [(40, document_active\<lparr>d_downloadCount := 1\<rparr>)]\<rparr>)"
  by (simp add: downloadDocument_def incrementDownloadCount_def Document_save_def example_defs)

subsection \<open>Consultation scheduler\<close>

text \<open>
  What the booking route's slot test does reject: a request whose start date equals the
  start date of a SCHEDULED or IN_PROGRESS consultation of the same reviewer.
\<close>

lemma POST_consultations_same_start:
  assumes "find (\<lambda>(i, ord). i = bb_orderId body \<and> o_customerId ord = userId) (orders s) = Some x"
    and "(cid, c) \<in> set (consultations s)"
    and "c_reviewerId c = bb_reviewerId body" "c_scheduledDate c = bb_scheduledDate body"
    and "c_status c = Cons_SCHEDULED \<or> c_status c = Cons_IN_PROGRESS"
  shows "POST_consultations e (Some userId) body s = (Inl SlotTaken, s)"
proof -
  from assms(2-5) have "find (\<lambda>(i, c). c_reviewerId c = bb_reviewerId body
                                   \<and> c_scheduledDate c = bb_scheduledDate body
                                   \<and> c_status c \<in> set [Cons_SCHEDULED, Cons_IN_PROGRESS])
                       (consultations s) \<noteq> None"
    by (auto simp: find_None_iff)
  with assms(1) show ?thesis
    by (auto simp: POST_consultations_def split: option.splits)
qed

text \<open>
  Claim C1, on the code. Reviewer 2 has a SCHEDULED consultation of 60 minutes at time
  10000000. A second booking for reviewer 2 that starts 30 minutes later, also of 60
  minutes, overlaps it (the availability route's own overlap test says so), yet both
  \<open>scheduleConsultation\<close> and the booking route accept it and store a third
  consultation.
\<close>

theorem overlapping_booking_accepted:
  "map_of (consultations store0) 60 = Some consultation_scheduled
   \<and> (c_reviewerId consultation_scheduled, c_status consultation_scheduled,
       c_scheduledDate consultation_scheduled, c_duration consultation_scheduled)
      = (2, Cons_SCHEDULED, 10000000, 60)
   \<and> isBooked (10000000 + 30 * 60000) [(10000000, 60)]
   \<and> fst (scheduleConsultation env0
        \<lparr>sd_orderId = 11, sd_customerId = 1, sd_reviewerId = 2,
         sd_scheduledDate = 10000000 + 30 * 60000, sd_duration = Some 60,
         sd_meetingLink = None\<rparr> store0)
      = Inr (new_Consultation 11 1 2 11800000 60
               (Some ''https://meet.medicalreview.com/consult_k3x9'') None)
   \<and> map fst (consultations (snd (scheduleConsultation env0
        \<lparr>sd_orderId = 11, sd_customerId = 1, sd_reviewerId = 2,
         sd_scheduledDate = 10000000 + 30 * 60000, sd_duration = Some 60,
         sd_meetingLink = None\<rparr> store0))) = [60, 61, 50]
   \<and> fst (POST_consultations env0 (Some 1)
        \<lparr>bb_orderId = 11, bb_reviewerId = 2, bb_scheduledDate = 10000000 + 30 * 60000,
         bb_duration = Some 60, bb_customerNotes = None\<rparr> store0)
      = Inr (new_Consultation 11 1 2 11800000 60 None None)
   \<and> map fst (consultations (snd (POST_consultations env0 (Some 1)
        \<lparr>bb_orderId = 11, bb_reviewerId = 2, bb_scheduledDate = 10000000 + 30 * 60000,
         bb_duration = Some 60, bb_customerNotes = None\<rparr> store0))) = [60, 61, 50]"
  by (simp add: scheduleConsultation_def POST_consultations_def Consultation_save_def
        Consultation_validate_def maxlength_def
        Consultation_pre_save_def Consultation_post_save_def isBooked_def isReviewer_def
        truthy_str_def Notification_create_def Let_def example_defs)

text \<open>
  What the two handlers of the route of one consultation write: for a participant,
  \<^verbatim>\<open>DELETE\<close> leaves the consultation CANCELLED and \<^verbatim>\<open>PUT\<close> leaves it in the status
  of the request body, whatever its status was.
\<close>

lemma consultation_routes_write_status:
  assumes "findFirst_participant cid (su_id user) (consultations s) = Some (i, c)"
  shows "map_option c_status
           (map_of (consultations (snd (DELETE_consultation (Some user) cid s))) cid)
         = Some Cons_CANCELLED"
    and "map_option c_status
           (map_of (consultations
              (snd (PUT_consultation (Some user) cid (body\<lparr>ub_status := Some b\<rparr>) s))) cid)
         = Some b"
  using assms
  by (simp_all add: DELETE_consultation_def PUT_consultation_def Let_def update_conv'
        split: option.splits)





lemma notify_participants_consultations [simp]:
  "consultations (notify_participants doc title s) = consultations s"
  by (simp add: notify_participants_def Notification_create_def)

lemma assign_CompleteConsultationData_scheduledDate [simp]:
  "c_scheduledDate (assign_CompleteConsultationData c d) = c_scheduledDate c"
  by (simp add: assign_CompleteConsultationData_def Let_def split: option.splits)

lemma Consultation_cancel_status [simp]: "c_status (Consultation_cancel r c) = Cons_CANCELLED"
  by (simp add: Consultation_cancel_def Let_def split: option.splits)

lemma Consultation_cancel_scheduledDate [simp]:
  "c_scheduledDate (Consultation_cancel r c) = c_scheduledDate c"
  by (simp add: Consultation_cancel_def Let_def split: option.splits)
















subsection \<open>The paid amount of an order over sequences of calls\<close>

lemma total_completed_Nil [simp]: "total_completed k [] = 0"
  by (simp add: total_completed_def)

lemma total_completed_Cons [simp]:
  "total_completed k ((i, p) # ps) = completed_amount k p + total_completed k ps"
  by (simp add: total_completed_def)

lemma total_completed_update_None:
  "map_of ps pid = None \<Longrightarrow>
   total_completed k (AList.update pid p' ps) = total_completed k ps + completed_amount k p'"
  by (induction ps) (auto split: if_splits)

lemma total_completed_update_Some:
  "distinct (map fst ps) \<Longrightarrow> map_of ps pid = Some p \<Longrightarrow>
   total_completed k (AList.update pid p' ps)
     = total_completed k ps - completed_amount k p + completed_amount k p'"
proof (induction ps)
  case Nil
  then show ?case by simp
next
  case (Cons x ps)
  obtain i q where x: "x = (i, q)" by (cases x)
  show ?case
  proof (cases "i = pid")
    case True
    with Cons.prems x show ?thesis by simp
  next
    case False
    with Cons x show ?thesis by simp
  qed
qed

lemma list_all_update:
  "list_all P al \<Longrightarrow> P (k, v) \<Longrightarrow> list_all P (AList.update k v al)"
  by (induction al) auto

lemma completed_amount_nonneg: "0 \<le> p_amount p \<Longrightarrow> 0 \<le> completed_amount k p"
  by (simp add: completed_amount_def)

lemma total_completed_nonneg:
  "list_all (\<lambda>(i, p). 0 \<le> p_amount p) ps \<Longrightarrow> 0 \<le> total_completed k ps"
  by (induction ps) (auto simp: completed_amount_nonneg)

lemma completed_amount_le_total:
  "list_all (\<lambda>(i, p). 0 \<le> p_amount p) ps \<Longrightarrow> map_of ps pid = Some p \<Longrightarrow>
   completed_amount k p \<le> total_completed k ps"
proof (induction ps)
  case Nil
  then show ?case by simp
next
  case (Cons x ps)
  obtain i q where x: "x = (i, q)" by (cases x)
  show ?case
  proof (cases "i = pid")
    case True
    with Cons.prems x have "q = p" and "0 \<le> total_completed k ps"
      by (auto simp: total_completed_nonneg)
    with x show ?thesis by simp
  next
    case False
    with Cons x have "completed_amount k p \<le> total_completed k ps" by simp
    moreover from Cons.prems x have "0 \<le> completed_amount k q"
      by (simp add: completed_amount_nonneg)
    ultimately show ?thesis using x by simp
  qed
qed

lemma list_all_lookup:
  "list_all P al \<Longrightarrow> map_of al k = Some v \<Longrightarrow> P (k, v)"
  by (auto simp: list_all_iff dest: map_of_SomeD)

lemma list_all_by_lookup:
  "distinct (map fst al) \<Longrightarrow> (\<And>k v. map_of al k = Some v \<Longrightarrow> P (k, v)) \<Longrightarrow> list_all P al"
  by (auto simp: list_all_iff)

text \<open>Writing a payment keeps the ledger consistent when the new totals stay covered.\<close>

lemma ledger_ok_payments_update:
  assumes ok: "ledger_ok us os ps"
    and amt: "0 \<le> p_amount p'"
    and cov: "\<And>k ord. map_of os k = Some ord \<Longrightarrow>
                 total_completed k (AList.update pid p' ps) \<le> o_paidAmount ord"
  shows "ledger_ok us os (AList.update pid p' ps)"
proof -
  from ok have d: "distinct (map fst os)" by (simp add: ledger_ok_def)
  have "list_all (\<lambda>(k, ord). total_completed k (AList.update pid p' ps) \<le> o_paidAmount ord) os"
    by (rule list_all_by_lookup [OF d]) (simp add: cov)
  with ok amt show ?thesis
    by (simp add: ledger_ok_def distinct_update list_all_update)
qed

text \<open>Writing an order keeps the ledger consistent when its customer resolves and its
  paid amount covers its completed payments.\<close>

lemma ledger_ok_orders_update:
  assumes ok: "ledger_ok us os ps"
    and cust: "map_of us (o_customerId ord') \<noteq> None"
    and cov: "total_completed k ps \<le> o_paidAmount ord'"
  shows "ledger_ok us (AList.update k ord' os) ps"
  using assms by (simp add: ledger_ok_def distinct_update list_all_update)

lemma ledger_ok_customer:
  "ledger_ok us os ps \<Longrightarrow> map_of os k = Some ord \<Longrightarrow> map_of us (o_customerId ord) \<noteq> None"
  by (auto simp: ledger_ok_def dest: list_all_lookup)

lemma ledger_ok_covered:
  "ledger_ok us os ps \<Longrightarrow> map_of os k = Some ord \<Longrightarrow> total_completed k ps \<le> o_paidAmount ord"
  by (auto simp: ledger_ok_def dest: list_all_lookup)

lemma ledger_ok_amount:
  "ledger_ok us os ps \<Longrightarrow> map_of ps pid = Some p \<Longrightarrow> 0 \<le> p_amount p"
  by (auto simp: ledger_ok_def dest: list_all_lookup)

lemma completed_amount_pre_save [simp]:
  "completed_amount k (Payment_pre_save e p) = completed_amount k p"
  by (simp add: completed_amount_def)

lemma Order_pre_save_paidAmount [simp]: "o_paidAmount (Order_pre_save e ord) = o_paidAmount ord"
  by (simp add: Order_pre_save_def Let_def)

lemma Order_pre_save_customerId [simp]: "o_customerId (Order_pre_save e ord) = o_customerId ord"
  by (simp add: Order_pre_save_def Let_def)

text \<open>Under resolving customers the post-save hook of a payment cannot fail.\<close>

lemma Payment_save_effect:
  assumes cust: "\<forall>k ord. map_of (orders s) k = Some ord \<longrightarrow>
                   map_of (users s) (o_customerId ord) \<noteq> None"
    and R: "Payment_save e pid valid this s = (r, s')"
  shows "users s' = users s
       \<and> (if valid \<and> \<not> txn_conflict pid (Payment_pre_save e this) (payments s)
          then r = Inr (Payment_pre_save e this)
               \<and> payments s' = AList.update pid (Payment_pre_save e this) (payments s)
               \<and> orders s' =
                   (if p_status this = Pay_COMPLETED
                    then (case map_of (orders s) (p_orderId this) of
                            None \<Rightarrow> orders s
                          | Some ord \<Rightarrow>
                              AList.update (p_orderId this)
                                (ord\<lparr>o_paidAmount := o_paidAmount ord + p_amount this\<rparr>) (orders s))
                    else orders s)
          else (\<exists>err. r = Inl err) \<and> s' = s)"
proof (cases "valid \<and> \<not> txn_conflict pid (Payment_pre_save e this) (payments s)")
  case False
  with R show ?thesis by (auto simp: Payment_save_def Let_def split: if_splits)
next
  case True
  let ?saved = "Payment_pre_save e this"
  let ?s1 = "s\<lparr>payments := AList.update pid ?saved (payments s)\<rparr>"
  from True R have post: "(case Payment_post_save ?saved ?s1 of
                 (None, s2) \<Rightarrow> (Inr ?saved, s2)
               | (Some err, s2) \<Rightarrow> (Inl err, s2)) = (r, s')"
    by (simp add: Payment_save_def Let_def)
  show ?thesis
  proof (cases "map_of (orders s) (p_orderId this)")
    case None
    with post True show ?thesis
      by (auto simp: Payment_post_save_def notify_populated_customer_def Order_inc_paidAmount_def
            Let_def split: if_splits)
  next
    case (Some ord)
    from cust Some obtain c where c: "map_of (users s) (o_customerId ord) = Some c" by auto
    with Some post True show ?thesis
      by (auto simp: Payment_post_save_def notify_populated_customer_def Order_inc_paidAmount_def
            Notification_create_def update_conv' Let_def split: if_splits)
  qed
qed

lemma ledger_inv_customers:
  "ledger_inv s \<Longrightarrow>
   \<forall>k ord. map_of (orders s) k = Some ord \<longrightarrow> map_of (users s) (o_customerId ord) \<noteq> None"
  unfolding ledger_inv_def by (blast dest: ledger_ok_customer)

lemma ledger_inv_same:
  "ledger_inv s \<Longrightarrow> users s' = users s \<Longrightarrow> orders s' = orders s \<Longrightarrow>
   payments s' = payments s \<Longrightarrow> ledger_inv s'"
  by (simp add: ledger_inv_def)

text \<open>A save of a payment that is not COMPLETED touches no order and keeps the ledger
  consistent, for a payment that is already stored and for a new one.\<close>

lemma quiet_save_step:
  assumes inv: "ledger_inv s"
    and doc: "p_status this \<noteq> Pay_COMPLETED" "0 \<le> p_amount this"
    and old: "map_of (payments s) pid = None \<or>
              (\<exists>p. map_of (payments s) pid = Some p \<and> 0 \<le> p_amount p)"
  shows "ledger_inv (snd (Payment_save e pid valid this s))
       \<and> orders (snd (Payment_save e pid valid this s)) = orders s"
proof -
  obtain r s' where R: "Payment_save e pid valid this s = (r, s')"
    by (cases "Payment_save e pid valid this s")
  note eff = Payment_save_effect [OF ledger_inv_customers [OF inv] R]
  show ?thesis
  proof (cases "valid \<and> \<not> txn_conflict pid (Payment_pre_save e this) (payments s)")
    case False
    with eff have "s' = s" by auto
    with inv R show ?thesis by simp
  next
    case True
    with eff doc have us: "users s' = users s" and os: "orders s' = orders s"
      and ps: "payments s' = AList.update pid (Payment_pre_save e this) (payments s)"
      by auto
    have ca: "\<And>k. completed_amount k (Payment_pre_save e this) = 0"
      using doc by (simp add: completed_amount_def)
    have "ledger_ok (users s) (orders s) (AList.update pid (Payment_pre_save e this) (payments s))"
    proof (rule ledger_ok_payments_update)
      show "ledger_ok (users s) (orders s) (payments s)" using inv by (simp add: ledger_inv_def)
      show "0 \<le> p_amount (Payment_pre_save e this)" using doc by simp
      fix k ord assume o: "map_of (orders s) k = Some ord"
      from inv o have cov: "total_completed k (payments s) \<le> o_paidAmount ord"
        unfolding ledger_inv_def by (rule ledger_ok_covered)
      from old show "total_completed k (AList.update pid (Payment_pre_save e this) (payments s))
                      \<le> o_paidAmount ord"
      proof
        assume "map_of (payments s) pid = None"
        then show ?thesis using cov ca by (simp add: total_completed_update_None)
      next
        assume "\<exists>p. map_of (payments s) pid = Some p \<and> 0 \<le> p_amount p"
        then obtain p where p: "map_of (payments s) pid = Some p" "0 \<le> p_amount p" by blast
        from inv have d: "distinct (map fst (payments s))"
          by (simp add: ledger_inv_def ledger_ok_def)
        from p(2) have "0 \<le> completed_amount k p" by (rule completed_amount_nonneg)
        then show ?thesis using cov ca by (simp add: total_completed_update_Some [OF d p(1)])
      qed
    qed
    with us os ps R show ?thesis by (simp add: ledger_inv_def)
  qed
qed

lemma ledger_inv_amount:
  "ledger_inv s \<Longrightarrow> map_of (payments s) pid = Some p \<Longrightarrow> 0 \<le> p_amount p"
  unfolding ledger_inv_def by (rule ledger_ok_amount)

lemma createPayment_step:
  assumes inv: "ledger_inv s"
  shows "ledger_inv (snd (createPayment e d s)) \<and> orders (snd (createPayment e d s)) = orders s"
proof -
  have "snd (createPayment e d s) = s
      \<or> (\<exists>doc. snd (createPayment e d s) = snd (Payment_save e (new_id e) True doc s)
                \<and> p_status doc = Pay_PENDING \<and> 0 < p_amount doc
                \<and> map_of (payments s) (new_id e) = None)"
    by (auto simp: createPayment_def Let_def split: option.splits)
  then show ?thesis
  proof
    assume "snd (createPayment e d s) = s"
    with inv show ?thesis by simp
  next
    assume "\<exists>doc. snd (createPayment e d s) = snd (Payment_save e (new_id e) True doc s)
                \<and> p_status doc = Pay_PENDING \<and> 0 < p_amount doc
                \<and> map_of (payments s) (new_id e) = None"
    then obtain doc where
      c: "snd (createPayment e d s) = snd (Payment_save e (new_id e) True doc s)"
      and t: "p_status doc = Pay_PENDING" "0 < p_amount doc"
      and n: "map_of (payments s) (new_id e) = None" by blast
    from t have q: "p_status doc \<noteq> Pay_COMPLETED" "0 \<le> p_amount doc" by auto
    from quiet_save_step [OF inv q, of "new_id e" e True] n c show ?thesis by simp
  qed
qed

lemma failPayment_step:
  assumes inv: "ledger_inv s"
  shows "ledger_inv (snd (failPayment e pid r s)) \<and> orders (snd (failPayment e pid r s)) = orders s"
proof (cases "\<exists>p. map_of (payments s) pid = Some p \<and> p_status p \<noteq> Pay_FAILED")
  case False
  then have "snd (failPayment e pid r s) = s"
    by (auto simp: failPayment_def Let_def split: option.splits)
  with inv show ?thesis by simp
next
  case True
  then obtain p where p: "map_of (payments s) pid = Some p" "p_status p \<noteq> Pay_FAILED" by blast
  then obtain this valid where
    c: "failPayment e pid r s = Payment_save e pid valid this s"
    and t: "p_status this = Pay_FAILED" "p_amount this = p_amount p"
    by (auto simp: failPayment_def Let_def)
  from t ledger_inv_amount [OF inv p(1)]
  have q: "p_status this \<noteq> Pay_COMPLETED" "0 \<le> p_amount this" by auto
  from quiet_save_step [OF inv q, of pid e valid] p ledger_inv_amount [OF inv p(1)] c
  show ?thesis by auto
qed

lemma cancelPayment_step:
  assumes inv: "ledger_inv s"
  shows "ledger_inv (snd (cancelPayment e pid s)) \<and> orders (snd (cancelPayment e pid s)) = orders s"
proof (cases "\<exists>p. map_of (payments s) pid = Some p \<and> p_status p = Pay_PENDING")
  case False
  then have "snd (cancelPayment e pid s) = s"
    by (auto simp: cancelPayment_def split: option.splits)
  with inv show ?thesis by simp
next
  case True
  then obtain p where p: "map_of (payments s) pid = Some p" "p_status p = Pay_PENDING" by blast
  then have c: "cancelPayment e pid s = Payment_save e pid True (p\<lparr>p_status := Pay_CANCELLED\<rparr>) s"
    by (simp add: cancelPayment_def)
  from ledger_inv_amount [OF inv p(1)]
  have q: "p_status (p\<lparr>p_status := Pay_CANCELLED\<rparr>) \<noteq> Pay_COMPLETED"
       "0 \<le> p_amount (p\<lparr>p_status := Pay_CANCELLED\<rparr>)" by auto
  from quiet_save_step [OF inv q, of pid e True] p ledger_inv_amount [OF inv p(1)] c
  show ?thesis by auto
qed

lemma retryFailedPayment_step:
  assumes inv: "ledger_inv s"
  shows "ledger_inv (snd (retryFailedPayment e pid s))
       \<and> orders (snd (retryFailedPayment e pid s)) = orders s"
proof (cases "\<exists>p. map_of (payments s) pid = Some p \<and> p_status p = Pay_FAILED")
  case False
  then have "snd (retryFailedPayment e pid s) = s"
    by (auto simp: retryFailedPayment_def split: option.splits)
  with inv show ?thesis by simp
next
  case True
  then obtain p where p: "map_of (payments s) pid = Some p" "p_status p = Pay_FAILED" by blast
  then have c: "retryFailedPayment e pid s
        = Payment_save e pid True (p\<lparr>p_status := Pay_PENDING, p_failureReason := None\<rparr>) s"
    by (simp add: retryFailedPayment_def)
  from ledger_inv_amount [OF inv p(1)]
  have q: "p_status (p\<lparr>p_status := Pay_PENDING, p_failureReason := None\<rparr>) \<noteq> Pay_COMPLETED"
       "0 \<le> p_amount (p\<lparr>p_status := Pay_PENDING, p_failureReason := None\<rparr>)" by auto
  from quiet_save_step [OF inv q, of pid e True] p ledger_inv_amount [OF inv p(1)] c
  show ?thesis by auto
qed

text \<open>Completion: the payment becomes COMPLETED and its order is credited the amount.\<close>

lemma completePayment_step:
  assumes inv: "ledger_inv s"
  shows "ledger_inv (snd (completePayment e pid d s))
       \<and> (\<forall>k ord. map_of (orders s) k = Some ord \<longrightarrow>
             map_option o_paidAmount (map_of (orders (snd (completePayment e pid d s))) k)
               = Some (o_paidAmount ord + credit e (CompletePayment pid d) s k))"
proof (cases "\<exists>p. map_of (payments s) pid = Some p \<and> p_status p \<noteq> Pay_COMPLETED")
  case False
  then have "completePayment e pid d s = (Inl NotFound, s)
           \<or> completePayment e pid d s = (Inl AlreadyCompleted, s)"
    by (auto simp: completePayment_def split: option.splits)
  with inv show ?thesis by (auto simp: credit_def)
next
  case True
  then obtain p where p: "map_of (payments s) pid = Some p" "p_status p \<noteq> Pay_COMPLETED"
    by blast
  then obtain doc valid where
    c: "completePayment e pid d s = Payment_save e pid valid doc s"
    and t: "p_status doc = Pay_COMPLETED" "p_amount doc = p_amount p" "p_orderId doc = p_orderId p"
    by (auto simp: completePayment_def Let_def Payment_complete_def
          assign_CompletePaymentData_def split: option.splits)
  obtain r s' where R: "Payment_save e pid valid doc s = (r, s')"
    by (cases "Payment_save e pid valid doc s")
  note eff = Payment_save_effect [OF ledger_inv_customers [OF inv] R]
  show ?thesis
  proof (cases "valid \<and> \<not> txn_conflict pid (Payment_pre_save e doc) (payments s)")
    case False
    with eff have "s' = s" "\<exists>err. r = Inl err" by auto
    with inv R c show ?thesis by (auto simp: credit_def)
  next
    case ok: True
    let ?saved = "Payment_pre_save e doc"
    let ?a = "p_amount p"
    let ?o = "p_orderId p"
    from ok eff t have r: "r = Inr ?saved" and us: "users s' = users s"
      and ps: "payments s' = AList.update pid ?saved (payments s)"
      and os: "orders s' = (case map_of (orders s) ?o of
                            None \<Rightarrow> orders s
                          | Some ord \<Rightarrow>
                              AList.update ?o (ord\<lparr>o_paidAmount := o_paidAmount ord + ?a\<rparr>) (orders s))"
      by (auto split: option.splits)
    from inv have okl: "ledger_ok (users s) (orders s) (payments s)"
      and d: "distinct (map fst (payments s))"
      by (simp_all add: ledger_inv_def ledger_ok_def)
    have a0: "0 \<le> ?a" by (rule ledger_inv_amount [OF inv p(1)])
    have tot: "\<And>k. total_completed k (AList.update pid ?saved (payments s))
                  = total_completed k (payments s) + (if k = ?o then ?a else 0)"
      using p(2) t by (auto simp: total_completed_update_Some [OF d p(1)] completed_amount_def)
    have cr: "\<And>k. credit e (CompletePayment pid d) s k = (if k = ?o then ?a else 0)"
      using c R r t by (auto simp: credit_def)
    have oinv: "ledger_ok (users s) (orders s') (payments s)"
    proof (cases "map_of (orders s) ?o")
      case None
      with os okl show ?thesis by simp
    next
      case (Some ord)
      have "ledger_ok (users s) (AList.update ?o (ord\<lparr>o_paidAmount := o_paidAmount ord + ?a\<rparr>) (orders s)) (payments s)"
      proof (rule ledger_ok_orders_update [OF okl])
        show "map_of (users s) (o_customerId (ord\<lparr>o_paidAmount := o_paidAmount ord + ?a\<rparr>)) \<noteq> None"
          using ledger_ok_customer [OF okl Some] by simp
        show "total_completed ?o (payments s) \<le> o_paidAmount (ord\<lparr>o_paidAmount := o_paidAmount ord + ?a\<rparr>)"
          using ledger_ok_covered [OF okl Some] a0 by simp
      qed
      with os Some show ?thesis by simp
    qed
    have look: "\<And>k ord. map_of (orders s) k = Some ord \<Longrightarrow>
                  map_of (orders s') k = Some (ord\<lparr>o_paidAmount := o_paidAmount ord + (if k = ?o then ?a else 0)\<rparr>)"
      using os by (auto simp: update_conv' split: option.splits)
    have look': "\<And>k ord'. map_of (orders s') k = Some ord' \<Longrightarrow>
                  \<exists>ord. map_of (orders s) k = Some ord
                        \<and> o_paidAmount ord' = o_paidAmount ord + (if k = ?o then ?a else 0)"
      using os by (auto simp: update_conv' split: option.splits if_splits)
    have "ledger_ok (users s) (orders s') (AList.update pid ?saved (payments s))"
    proof (rule ledger_ok_payments_update [OF oinv])
      show "0 \<le> p_amount ?saved" using a0 t by simp
      fix k ord' assume "map_of (orders s') k = Some ord'"
      from look' [OF this] obtain ord where
        o: "map_of (orders s) k = Some ord"
           "o_paidAmount ord' = o_paidAmount ord + (if k = ?o then ?a else 0)" by blast
      from ledger_ok_covered [OF okl o(1)] o(2) tot [of k]
      show "total_completed k (AList.update pid ?saved (payments s)) \<le> o_paidAmount ord'" by simp
    qed
    then have i: "ledger_inv s'" using us ps by (simp add: ledger_inv_def)
    from look cr have "\<forall>k ord. map_of (orders s) k = Some ord \<longrightarrow>
             map_option o_paidAmount (map_of (orders s') k)
               = Some (o_paidAmount ord + credit e (CompletePayment pid d) s k)"
      by simp
    with i c R show ?thesis by simp
  qed
qed

lemma refundAmount_of_cong:
  "p_amount p' = p_amount p \<Longrightarrow> refundAmount_of d p' = refundAmount_of d p"
  by (simp add: refundAmount_of_def split: option.splits)

text \<open>Refund: the payment leaves COMPLETED and its order is debited the refunded amount;
  in a consistent ledger the floor at 0 is never reached.\<close>

lemma refundPayment_step:
  assumes inv: "ledger_inv s"
  shows "ledger_inv (snd (refundPayment e pid d s))
       \<and> (\<forall>k ord. map_of (orders s) k = Some ord \<longrightarrow>
             map_option o_paidAmount (map_of (orders (snd (refundPayment e pid d s))) k)
               = Some (o_paidAmount ord + credit e (RefundPayment pid d) s k))"
proof (cases "\<exists>p. map_of (payments s) pid = Some p \<and> p_status p = Pay_COMPLETED
                \<and> \<not> refundAmount_of d p > p_amount p")
  case False
  then have "\<exists>err. refundPayment e pid d s = (Inl err, s)"
    by (auto simp: refundPayment_def Let_def split: option.splits)
  with inv show ?thesis by (auto simp: credit_def)
next
  case True
  then obtain p where p: "map_of (payments s) pid = Some p" "p_status p = Pay_COMPLETED"
    and le: "\<not> refundAmount_of d p > p_amount p" by blast
  let ?ra = "refundAmount_of d p"
  let ?doc = "Payment_refund e ?ra (rd_reason d) (rd_refundId d) p"
  let ?saved = "Payment_pre_save e ?doc"
  let ?o = "p_orderId p"
  note u = refundPayment_unfold [OF p le, of e]
  have sv: "p_status ?saved = Pay_REFUNDED" "p_amount ?saved = p_amount p" "p_orderId ?saved = ?o"
    by (simp_all add: Payment_refund_def)
  show ?thesis
  proof (cases "(assigned_ok (\<lambda>r. 0 \<le> r) (p_refundAmount ?doc) \<and> maxlength 500 (p_refundReason ?doc))
                \<and> \<not> txn_conflict pid ?saved (payments s)")
    case False
    with u have "\<exists>err. refundPayment e pid d s = (Inl err, s)"
      by (auto simp: Let_def)
    with inv show ?thesis by (auto simp: credit_def)
  next
    case ok: True
    from inv have okl: "ledger_ok (users s) (orders s) (payments s)"
      and dist: "distinct (map fst (payments s))"
      and amts: "list_all (\<lambda>(i, p). 0 \<le> p_amount p) (payments s)"
      by (simp_all add: ledger_inv_def ledger_ok_def)
    have a0: "0 \<le> p_amount p" by (rule ledger_inv_amount [OF inv p(1)])
    have tot: "\<And>k. total_completed k (AList.update pid ?saved (payments s))
                  = total_completed k (payments s) - (if k = ?o then p_amount p else 0)"
      using p(2) sv by (auto simp: total_completed_update_Some [OF dist p(1)] completed_amount_def)
    have pinv: "ledger_ok (users s) (orders s) (AList.update pid ?saved (payments s))"
    proof (rule ledger_ok_payments_update [OF okl])
      show "0 \<le> p_amount ?saved" using a0 sv by simp
      fix k ord assume "map_of (orders s) k = Some ord"
      from ledger_ok_covered [OF okl this] tot [of k] a0
      show "total_completed k (AList.update pid ?saved (payments s)) \<le> o_paidAmount ord"
        by (cases "k = ?o") simp_all
    qed
    have fstr: "fst (refundPayment e pid d s) = Inr ?saved"
      using u ok by (auto simp: Let_def split: option.splits)
    have cr: "\<And>k. credit e (RefundPayment pid d) s k = (if k = ?o then - ?ra else 0)"
      using fstr sv refundAmount_of_cong [of ?saved p d] by (simp add: credit_def)
    show ?thesis
    proof (cases "map_of (orders s) ?o")
      case None
      with u ok have s': "snd (refundPayment e pid d s)
                            = s\<lparr>payments := AList.update pid ?saved (payments s)\<rparr>"
        by (simp add: Let_def)
      have "ledger_inv (snd (refundPayment e pid d s))"
        using pinv s' by (simp add: ledger_inv_def)
      moreover have "\<forall>k ord. map_of (orders s) k = Some ord \<longrightarrow>
             map_option o_paidAmount (map_of (orders (snd (refundPayment e pid d s))) k)
               = Some (o_paidAmount ord + credit e (RefundPayment pid d) s k)"
        using s' None cr by auto
      ultimately show ?thesis by simp
    next
      case (Some order)
      let ?ord' = "Order_pre_save e (order\<lparr>o_paidAmount := max 0 (o_paidAmount order - ?ra)\<rparr>)"
      from u ok Some have us: "users (snd (refundPayment e pid d s)) = users s"
        and ps: "payments (snd (refundPayment e pid d s)) = AList.update pid ?saved (payments s)"
        and os: "orders (snd (refundPayment e pid d s)) = AList.update ?o ?ord' (orders s)"
        by (simp_all add: Let_def)
      have ca: "completed_amount ?o p = p_amount p" using p(2) by (simp add: completed_amount_def)
      from completed_amount_le_total [OF amts p(1), of ?o] ca ledger_ok_covered [OF okl Some]
      have paid: "p_amount p \<le> total_completed ?o (payments s)"
                 "total_completed ?o (payments s) \<le> o_paidAmount order" by simp_all
      with le have nofloor: "max 0 (o_paidAmount order - ?ra) = o_paidAmount order - ?ra" by simp
      have "ledger_ok (users s) (AList.update ?o ?ord' (orders s)) (AList.update pid ?saved (payments s))"
      proof (rule ledger_ok_orders_update [OF pinv])
        show "map_of (users s) (o_customerId ?ord') \<noteq> None"
          using ledger_ok_customer [OF okl Some] by simp
        show "total_completed ?o (AList.update pid ?saved (payments s)) \<le> o_paidAmount ?ord'"
          using tot [of ?o] paid le nofloor by simp
      qed
      then have "ledger_inv (snd (refundPayment e pid d s))"
        using us ps os by (simp add: ledger_inv_def)
      moreover have "\<forall>k ord. map_of (orders s) k = Some ord \<longrightarrow>
             map_option o_paidAmount (map_of (orders (snd (refundPayment e pid d s))) k)
               = Some (o_paidAmount ord + credit e (RefundPayment pid d) s k)"
        using os Some cr nofloor by (auto simp: update_conv')
      ultimately show ?thesis by simp
    qed
  qed
qed

text \<open>The status operations of the order service write one order and leave its paid
  amount and its customer as they were.\<close>

lemma order_write_step:
  assumes inv: "ledger_inv s"
    and us: "users s' = users s" and ps: "payments s' = payments s"
    and g: "\<And>x. o_paidAmount (g x) = o_paidAmount x" "\<And>x. o_customerId (g x) = o_customerId x"
    and os: "orders s' = orders s \<or>
             (\<exists>ord0. map_of (orders s) key = Some ord0
                \<and> orders s' = AList.update key (Order_pre_save e (g ord0)) (orders s))"
  shows "ledger_inv s'
       \<and> (\<forall>k ord. map_of (orders s) k = Some ord \<longrightarrow>
             map_option o_paidAmount (map_of (orders s') k) = Some (o_paidAmount ord))"
  using os
proof
  assume "orders s' = orders s"
  with inv us ps show ?thesis by (simp add: ledger_inv_def)
next
  assume "\<exists>ord0. map_of (orders s) key = Some ord0
                \<and> orders s' = AList.update key (Order_pre_save e (g ord0)) (orders s)"
  then obtain ord0 where o: "map_of (orders s) key = Some ord0"
    "orders s' = AList.update key (Order_pre_save e (g ord0)) (orders s)" by blast
  from inv have okl: "ledger_ok (users s) (orders s) (payments s)" by (simp add: ledger_inv_def)
  have "ledger_ok (users s) (AList.update key (Order_pre_save e (g ord0)) (orders s)) (payments s)"
  proof (rule ledger_ok_orders_update [OF okl])
    show "map_of (users s) (o_customerId (Order_pre_save e (g ord0))) \<noteq> None"
      using ledger_ok_customer [OF okl o(1)] g by simp
    show "total_completed key (payments s) \<le> o_paidAmount (Order_pre_save e (g ord0))"
      using ledger_ok_covered [OF okl o(1)] g by simp
  qed
  then have "ledger_inv s'" using us ps o(2) by (simp add: ledger_inv_def)
  moreover have "\<forall>k ord. map_of (orders s) k = Some ord \<longrightarrow>
             map_option o_paidAmount (map_of (orders s') k) = Some (o_paidAmount ord)"
    using o g by (auto simp: update_conv')
  ultimately show ?thesis by simp
qed


lemma assignReviewer_write:
  "users (snd (assignReviewer e k0 rid s)) = users s
   \<and> payments (snd (assignReviewer e k0 rid s)) = payments s
   \<and> (orders (snd (assignReviewer e k0 rid s)) = orders s \<or>
      (\<exists>ord0. map_of (orders s) k0 = Some ord0
          \<and> orders (snd (assignReviewer e k0 rid s))
              = AList.update k0
                  (Order_pre_save e
                     ((\<lambda>x. x\<lparr>o_reviewerId := Some rid, o_status := Order_ASSIGNED,
                              o_assignedAt := Some (now e)\<rparr>) ord0))
                  (orders s)))"
  by (auto simp: assignReviewer_def Order_save_def Notification_create_def Let_def
        split: option.splits)

lemma updateOrderStatus_write:
  "users (snd (updateOrderStatus e k0 st s)) = users s
   \<and> payments (snd (updateOrderStatus e k0 st s)) = payments s
   \<and> (orders (snd (updateOrderStatus e k0 st s)) = orders s \<or>
      (\<exists>ord0. map_of (orders s) k0 = Some ord0
          \<and> orders (snd (updateOrderStatus e k0 st s))
              = AList.update k0
                  (Order_pre_save e
                     ((\<lambda>x. if st = Order_COMPLETED
                            then x\<lparr>o_status := st, o_completedAt := Some (now e)\<rparr>
                            else x\<lparr>o_status := st\<rparr>) ord0))
                  (orders s)))"
  by (auto simp: updateOrderStatus_def Order_save_def Notification_create_def Let_def
        split: option.splits)

lemma cancelOrder_write:
  "users (snd (cancelOrder e k0 s)) = users s
   \<and> payments (snd (cancelOrder e k0 s)) = payments s
   \<and> (orders (snd (cancelOrder e k0 s)) = orders s \<or>
      (\<exists>ord0. map_of (orders s) k0 = Some ord0
          \<and> orders (snd (cancelOrder e k0 s))
              = AList.update k0
                  (Order_pre_save e ((\<lambda>x. x\<lparr>o_status := Order_CANCELLED\<rparr>) ord0))
                  (orders s)))"
  by (auto simp: cancelOrder_def Order_save_def Notification_create_def Let_def
        split: option.splits)

lemma credit_other [simp]:
  "credit e (CreatePayment cd) s k = 0" "credit e (FailPayment pid r) s k = 0"
  "credit e (CancelPayment pid) s k = 0" "credit e (RetryFailedPayment pid) s k = 0"
  "credit e (AssignReviewer k0 rid) s k = 0" "credit e (UpdateOrderStatus k0 st) s k = 0"
  "credit e (CancelOrder k0) s k = 0"
  by (simp_all add: credit_def)

lemma run_op_step:
  assumes inv: "ledger_inv s"
  shows "ledger_inv (run_op e op s)
       \<and> (\<forall>k ord. map_of (orders s) k = Some ord \<longrightarrow>
             map_option o_paidAmount (map_of (orders (run_op e op s)) k)
               = Some (o_paidAmount ord + credit e op s k))"
proof (cases op)
  case (CreatePayment cd)
  with createPayment_step [OF inv, of e cd] show ?thesis by (simp add: run_op_def)
next
  case (CompletePayment pid d)
  with completePayment_step [OF inv, of e pid d] show ?thesis by (simp add: run_op_def)
next
  case (FailPayment pid r)
  with failPayment_step [OF inv, of e pid r] show ?thesis by (simp add: run_op_def)
next
  case (RefundPayment pid d)
  with refundPayment_step [OF inv, of e pid d] show ?thesis by (simp add: run_op_def)
next
  case (CancelPayment pid)
  with cancelPayment_step [OF inv, of e pid] show ?thesis by (simp add: run_op_def)
next
  case (RetryFailedPayment pid)
  with retryFailedPayment_step [OF inv, of e pid] show ?thesis by (simp add: run_op_def)
next
  case (AssignReviewer k0 rid)
  have "ledger_inv (snd (assignReviewer e k0 rid s))
       \<and> (\<forall>k ord. map_of (orders s) k = Some ord \<longrightarrow>
             map_option o_paidAmount (map_of (orders (snd (assignReviewer e k0 rid s))) k)
               = Some (o_paidAmount ord))"
  proof (rule order_write_step [OF inv, where key = k0 and e = e
             and g = "\<lambda>x. x\<lparr>o_reviewerId := Some rid, o_status := Order_ASSIGNED,
                              o_assignedAt := Some (now e)\<rparr>"])
    show "orders (snd (assignReviewer e k0 rid s)) = orders s \<or>
      (\<exists>ord0. map_of (orders s) k0 = Some ord0
          \<and> orders (snd (assignReviewer e k0 rid s))
              = AList.update k0
                  (Order_pre_save e
                     ((\<lambda>x. x\<lparr>o_reviewerId := Some rid, o_status := Order_ASSIGNED,
                              o_assignedAt := Some (now e)\<rparr>) ord0))
                  (orders s))"
      using assignReviewer_write [of e k0 rid s] by blast
  qed (simp_all add: assignReviewer_write)
  with AssignReviewer show ?thesis by (simp add: run_op_def)
next
  case (UpdateOrderStatus k0 st)
  have "ledger_inv (snd (updateOrderStatus e k0 st s))
       \<and> (\<forall>k ord. map_of (orders s) k = Some ord \<longrightarrow>
             map_option o_paidAmount (map_of (orders (snd (updateOrderStatus e k0 st s))) k)
               = Some (o_paidAmount ord))"
  proof (rule order_write_step [OF inv, where key = k0 and e = e
             and g = "\<lambda>x. if st = Order_COMPLETED
                            then x\<lparr>o_status := st, o_completedAt := Some (now e)\<rparr>
                            else x\<lparr>o_status := st\<rparr>"])
    show "orders (snd (updateOrderStatus e k0 st s)) = orders s \<or>
      (\<exists>ord0. map_of (orders s) k0 = Some ord0
          \<and> orders (snd (updateOrderStatus e k0 st s))
              = AList.update k0
                  (Order_pre_save e
                     ((\<lambda>x. if st = Order_COMPLETED
                            then x\<lparr>o_status := st, o_completedAt := Some (now e)\<rparr>
                            else x\<lparr>o_status := st\<rparr>) ord0))
                  (orders s))"
      using updateOrderStatus_write [of e k0 st s] by blast
  qed (simp_all add: updateOrderStatus_write)
  with UpdateOrderStatus show ?thesis by (simp add: run_op_def)
next
  case (CancelOrder k0)
  have "ledger_inv (snd (cancelOrder e k0 s))
       \<and> (\<forall>k ord. map_of (orders s) k = Some ord \<longrightarrow>
             map_option o_paidAmount (map_of (orders (snd (cancelOrder e k0 s))) k)
               = Some (o_paidAmount ord))"
  proof (rule order_write_step [OF inv, where key = k0 and e = e
             and g = "\<lambda>x. x\<lparr>o_status := Order_CANCELLED\<rparr>"])
    show "orders (snd (cancelOrder e k0 s)) = orders s \<or>
      (\<exists>ord0. map_of (orders s) k0 = Some ord0
          \<and> orders (snd (cancelOrder e k0 s))
              = AList.update k0
                  (Order_pre_save e ((\<lambda>x. x\<lparr>o_status := Order_CANCELLED\<rparr>) ord0))
                  (orders s))"
      using cancelOrder_write [of e k0 s] by blast
  qed (simp_all add: cancelOrder_write)
  with CancelOrder show ?thesis by (simp add: run_op_def)
qed

text \<open>
  Claim C4, as the code has it. Start from a consistent ledger and run any sequence of
  calls of the payment operations (create, complete, fail, refund, cancel, retry) and of
  the order status operations (assign, update status, cancel), one after the other. Then
  the ledger stays consistent and the \<open>paidAmount\<close> of every order is its initial value
  plus the amounts of the successful completions of its payments minus the amounts of the
  successful refunds of its payments: no other call changes it, in particular no order
  status operation, and the floor at 0 is never reached. Nothing bounds it by
  \<open>totalAmount\<close>.
\<close>

theorem paidAmount_ledger:
  assumes "ledger_inv s" and "map_of (orders s) orderId = Some ord"
  shows "ledger_inv (run_ops ops s)
       \<and> map_option o_paidAmount (map_of (orders (run_ops ops s)) orderId)
           = Some (o_paidAmount ord + ledger ops s orderId)"
  using assms
proof (induction ops arbitrary: s ord)
  case Nil
  then show ?case by simp
next
  case (Cons x ops)
  obtain e op where x: "x = (e, op)" by (cases x)
  from run_op_step [OF Cons.prems(1), of e op] Cons.prems(2)
  have inv': "ledger_inv (run_op e op s)"
    and paid: "map_option o_paidAmount (map_of (orders (run_op e op s)) orderId)
                 = Some (o_paidAmount ord + credit e op s orderId)"
    by simp_all
  from paid obtain ord' where o': "map_of (orders (run_op e op s)) orderId = Some ord'"
    "o_paidAmount ord' = o_paidAmount ord + credit e op s orderId" by auto
  from Cons.IH [OF inv' o'(1)] o'(2) x show ?case by (auto simp: add.assoc)
qed

lemmas ledger_eval =
  run_op_def credit_def createPayment_def completePayment_def refundPayment_def
  updateOrderStatus_def assign_CompletePaymentData_def Payment_complete_def Payment_refund_def
  refundAmount_of_def Payment_save_def Payment_pre_save_def Payment_post_save_def
  notify_populated_customer_def Order_inc_paidAmount_def txn_conflict_def assigned_ok_def
  maxlength_def truthy_str_def truthy_num_def valid_currency_def to_upper_def trim_def
  is_space_def Order_save_def Order_pre_save_def Notification_create_def Let_def
  env2_def env3_def calls_partial_refund_def calls_overpay_def

lemma ledger_inv_store0: "ledger_inv store0"
  by (simp add: ledger_inv_def ledger_ok_def total_completed_def completed_amount_def example_defs)

theorem paidAmount_ledger_witness:
  "ledger_inv store0
   \<and> map_of (orders store0) 10 = Some order_pending
   \<and> ledger calls_partial_refund store0 10 = 70
   \<and> map_option o_paidAmount (map_of (orders (run_ops calls_partial_refund store0)) 10) = Some 70"
proof -
  have i: "ledger_inv store0" by (rule ledger_inv_store0)
  have f: "map_of (orders store0) 10 = Some order_pending" by (simp add: example_defs)
  have l: "ledger calls_partial_refund store0 10 = 70"
    by (simp add: ledger_eval example_defs)
  from paidAmount_ledger [OF i f, of calls_partial_refund] l
  have "map_option o_paidAmount (map_of (orders (run_ops calls_partial_refund store0)) 10) = Some 70"
    by (simp add: example_defs)
  with i f l show ?thesis by simp
qed

text \<open>
  Claim C4 as stated fails: on order 10, whose total is 350, a payment of 500 is created
  and completed; the order's \<open>paidAmount\<close> is then 500.
\<close>

theorem paidAmount_exceeds_total_counterexample:
  "ledger_inv store0
   \<and> map_option (\<lambda>x. (o_paidAmount x, o_totalAmount x))
        (map_of (orders (run_ops calls_overpay store0)) 10) = Some (500, 350)
   \<and> map_option (\<lambda>x. o_paidAmount x \<le> o_totalAmount x)
        (map_of (orders (run_ops calls_overpay store0)) 10) = Some False"
  by (simp add: ledger_inv_def ledger_ok_def total_completed_def completed_amount_def
        ledger_eval example_defs)

end
